theory Spec2Isabelle
  imports Main "HOL-Library.Multiset"
begin

section \<open>Data model (models.py)\<close>

text \<open>
  The four values of the enum \<open>CharacterType\<close>. They are also the keys of an edition's
  \<open>characters\<close> dictionary and of every role distribution.
\<close>

datatype CharacterType = TOWNSFOLK | OUTSIDER | MINION | DEMON

text \<open>
  \<open>class Character(BaseModel)\<close>. The fields \<open>id\<close>, \<open>name\<close> and \<open>type\<close> carry a
  prefix, since the three models share field names.
\<close>

record Character =
  char_id :: string
  char_name :: string
  ability :: string
  first_night :: int
  other_nights :: int
  char_type :: "CharacterType option"

text \<open>\<open>class Player(BaseModel)\<close>; \<open>character\<close> defaults to \<open>None\<close>.\<close>

record Player =
  player_id :: string
  player_name :: string
  character :: "Character option"
  is_storyteller :: bool

text \<open>\<open>class Game(BaseModel)\<close>; \<open>started\<close> defaults to \<open>False\<close>, \<open>player_count\<close> to \<open>None\<close>.\<close>

record Game =
  game_id :: string
  edition :: string
  players :: "Player list"
  started :: bool
  player_count :: "int option"

section \<open>The catalog (data/editions.json)\<close>

text \<open>
  The catalog file is read once by \<open>_load_editions\<close> and is a parameter of the model.
  One entry of a character bucket is a dictionary with the keys \<open>id\<close>, \<open>name\<close>,
  \<open>ability\<close>, \<open>first_night\<close> and \<open>other_nights\<close>.
\<close>

record CharEntry =
  entry_id :: string
  entry_name :: string
  entry_ability :: string
  entry_first_night :: int
  entry_other_nights :: int

text \<open>
  A role distribution is the dictionary \<open>setup[str(player_count)]\<close>. The loop of
  \<open>_select_random_characters\<close> walks it in insertion order, so it is an association list.
\<close>

type_synonym Distribution = "(CharacterType \<times> int) list"

text \<open>
  One edition: its display name, its buckets \<open>characters[char_type]\<close> and the table
  named \<open>setup\<close>. The table is keyed by the decimal string of the player count; the model keys
  it by the count itself.
\<close>

record Edition =
  edition_name :: string
  characters :: "CharacterType \<rightharpoonup> CharEntry list"
  setup_table :: "int \<rightharpoonup> Distribution"

section \<open>The service state and its errors (game_service.py)\<close>

text \<open>
  \<open>class GameService\<close>: the dictionary \<open>games\<close> and the loaded catalog
  \<open>editions_data\<close>.
\<close>

record GameService =
  games :: "string \<rightharpoonup> Game"
  editions_data :: "string \<rightharpoonup> Edition"

text \<open>
  Every failure of the service is a Python exception. Each constructor is one raise
  site (all of them \<open>ValueError\<close> with a fixed message) or one failing dictionary
  lookup or library call:
  \<^item> \<open>EditionNotFound e\<close>: "Edition e nicht gefunden" (\<open>create_game\<close>);
  \<^item> \<open>GameNotFound g\<close>: "Spiel g nicht gefunden" (\<open>join_game\<close>, \<open>start_game\<close>);
  \<^item> \<open>AlreadyStarted\<close>: "Spiel hat bereits begonnen" (\<open>join_game\<close>, \<open>start_game\<close>);
  \<^item> \<open>CountMismatch expected present\<close>: "Spieleranzahl stimmt nicht ueberein" (\<open>start_game\<close>);
  \<^item> \<open>InvalidPlayerCount n\<close>: "Ungueltige Spielerzahl: n" (\<open>_get_role_distribution\<close>);
  \<^item> \<open>NotFoundOrNotStarted\<close>: "Spiel nicht gefunden oder noch nicht gestartet"
    (\<open>get_night_order\<close>);
  \<^item> \<open>OverviewGameNotFound\<close>: "Spiel nicht gefunden" (\<open>get_storyteller_overview\<close>);
  \<^item> \<open>OnlyStoryteller\<close>: "Nur der Erzaehler kann diese Ansicht sehen"
    (\<open>get_storyteller_overview\<close>);
  \<^item> \<open>EditionKeyError e\<close>: the lookup \<open>self.editions_data[edition]\<close> fails;
  \<^item> \<open>BucketKeyError t\<close>: the lookup \<open>characters_data[char_type]\<close> fails;
  \<^item> \<open>SampleError\<close>: \<open>random.sample\<close> rejects a negative or too large sample size.
\<close>

datatype error =
    EditionNotFound string
  | GameNotFound string
  | AlreadyStarted
  | CountMismatch int nat
  | InvalidPlayerCount int
  | NotFoundOrNotStarted
  | OverviewGameNotFound
  | OnlyStoryteller
  | EditionKeyError string
  | BucketKeyError CharacterType
  | SampleError

section \<open>The random generator\<close>

text \<open>
  The module \<open>random\<close> is modelled by the draws it makes: a list of naturals, consumed
  from the front. One draw picks a position among the elements still in the pool (the
  draw modulo the pool's size; an exhausted list draws position 0), and the element
  picked leaves the pool. As the draws range over all lists, \<open>pick k pool\<close> ranges over
  all selections of \<open>k\<close> positions of the pool without replacement, in every order.
\<close>

fun pick :: "nat \<Rightarrow> 'a list \<Rightarrow> nat list \<Rightarrow> 'a list \<times> nat list" where
  "pick 0 pool rs = ([], rs)"
| "pick (Suc k) pool rs =
     (if pool = [] then ([], rs)
      else
        let j = (case rs of [] \<Rightarrow> 0 | r # _ \<Rightarrow> r mod length pool);
            (ys, rs') = pick k (take j pool @ drop (Suc j) pool) (tl rs)
        in (pool ! j # ys, rs'))"

text \<open>
  \<open>random.sample(population, k)\<close>: raises \<open>ValueError\<close> when \<open>k\<close> is negative or
  larger than the population, and returns \<open>k\<close> elements otherwise.
\<close>

definition random_sample :: "'a list \<Rightarrow> int \<Rightarrow> nat list \<Rightarrow> error + ('a list \<times> nat list)" where
  "random_sample population k rs =
     (if k < 0 \<or> int (length population) < k then Inl SampleError
      else Inr (pick (nat k) population rs))"

text \<open>\<open>random.shuffle(x)\<close>: the list in a random order.\<close>

definition shuffle :: "'a list \<Rightarrow> nat list \<Rightarrow> 'a list" where
  "shuffle xs rs = fst (pick (length xs) xs rs)"

section \<open>Session lifecycle\<close>

text \<open>
  \<open>create_game\<close>. The two identifiers \<open>str(uuid.uuid4())[:8]\<close> are parameters: first
  the game's, then the storyteller's. Every operation returns its result together with
  the service state it leaves behind.
\<close>

definition create_game ::
  "GameService \<Rightarrow> string \<Rightarrow> string \<Rightarrow> string \<Rightarrow> string \<Rightarrow> (error + Game) \<times> GameService" where
  "create_game s ed storyteller_name new_game_id new_player_id =
     (if editions_data s ed = None then (Inl (EditionNotFound ed), s)
      else
        let storyteller = \<lparr>player_id = new_player_id, player_name = storyteller_name,
                             character = None, is_storyteller = True\<rparr>;
            game = \<lparr>game_id = new_game_id, edition = ed, players = [storyteller],
                      started = False, player_count = None\<rparr>
        in (Inr game, s\<lparr>games := (games s)(new_game_id \<mapsto> game)\<rparr>))"

definition get_game :: "GameService \<Rightarrow> string \<Rightarrow> Game option" where
  "get_game s gid = games s gid"

text \<open>\<open>join_game\<close>; the fresh player identifier is a parameter.\<close>

definition join_game ::
  "GameService \<Rightarrow> string \<Rightarrow> string \<Rightarrow> string \<Rightarrow> (error + Player) \<times> GameService" where
  "join_game s gid name new_player_id =
     (case games s gid of
        None \<Rightarrow> (Inl (GameNotFound gid), s)
      | Some game \<Rightarrow>
          if started game then (Inl AlreadyStarted, s)
          else
            let player = \<lparr>player_id = new_player_id, player_name = name,
                            character = None, is_storyteller = False\<rparr>
            in (Inr player,
                s\<lparr>games := (games s)(gid \<mapsto> game\<lparr>players := players game @ [player]\<rparr>)\<rparr>))"

section \<open>Assignment engine\<close>

definition get_role_distribution :: "GameService \<Rightarrow> string \<Rightarrow> int \<Rightarrow> error + Distribution" where
  "get_role_distribution s ed cnt =
     (case editions_data s ed of
        None \<Rightarrow> Inl (EditionKeyError ed)
      | Some e \<Rightarrow>
          (case setup_table e cnt of
             None \<Rightarrow> Inl (InvalidPlayerCount cnt)
           | Some d \<Rightarrow> Inr d))"

text \<open>The \<open>Character(...)\<close> built from a catalog entry, tagged with its bucket.\<close>

definition mk_character :: "CharacterType \<Rightarrow> CharEntry \<Rightarrow> Character" where
  "mk_character t c =
     \<lparr>char_id = entry_id c, char_name = entry_name c, ability = entry_ability c,
      first_night = entry_first_night c, other_nights = entry_other_nights c,
      char_type = Some t\<rparr>"

text \<open>
  The loop of \<open>_select_random_characters\<close> over \<open>distribution.items()\<close>: each round
  samples one bucket and appends the characters built from the sample.
\<close>

fun select_loop ::
  "(CharacterType \<rightharpoonup> CharEntry list) \<Rightarrow> Distribution \<Rightarrow> nat list
     \<Rightarrow> error + (Character list \<times> nat list)" where
  "select_loop cd [] rs = Inr ([], rs)"
| "select_loop cd ((t, cnt) # rest) rs =
     (case cd t of
        None \<Rightarrow> Inl (BucketKeyError t)
      | Some available \<Rightarrow>
          (case random_sample available (min cnt (int (length available))) rs of
             Inl e \<Rightarrow> Inl e
           | Inr (chosen, rs1) \<Rightarrow>
               (case select_loop cd rest rs1 of
                  Inl e \<Rightarrow> Inl e
                | Inr (selected, rs2) \<Rightarrow> Inr (map (mk_character t) chosen @ selected, rs2))))"

definition select_random_characters ::
  "GameService \<Rightarrow> string \<Rightarrow> Distribution \<Rightarrow> nat list \<Rightarrow> error + (Character list \<times> nat list)" where
  "select_random_characters s ed distribution rs =
     (case editions_data s ed of
        None \<Rightarrow> Inl (EditionKeyError ed)
      | Some e \<Rightarrow> select_loop (characters e) distribution rs)"

text \<open>
  The loop \<open>for player, character in zip(non_storyteller_players, characters)\<close> sets
  \<open>player.character\<close> on the player objects that \<open>game.players\<close> holds. A player
  object is named by its position in \<open>game.players\<close>; \<open>non_storyteller_positions\<close> are
  the positions of the objects in \<open>non_storyteller_players\<close>, in order.
\<close>

definition non_storyteller_positions :: "Player list \<Rightarrow> nat list" where
  "non_storyteller_positions ps = filter (\<lambda>i. \<not> is_storyteller (ps ! i)) [0..<length ps]"

definition assign_characters :: "Player list \<Rightarrow> Character list \<Rightarrow> Player list" where
  "assign_characters ps cs =
     fold (\<lambda>(i, c) qs. qs[i := (qs ! i)\<lparr>character := Some c\<rparr>])
          (zip (non_storyteller_positions ps) cs) ps"

definition non_storytellers :: "Game \<Rightarrow> Player list" where
  "non_storytellers game = filter (\<lambda>p. \<not> is_storyteller p) (players game)"

definition start_game ::
  "GameService \<Rightarrow> string \<Rightarrow> int \<Rightarrow> nat list \<Rightarrow> (error + Game) \<times> GameService" where
  "start_game s gid cnt rs =
     (case games s gid of
        None \<Rightarrow> (Inl (GameNotFound gid), s)
      | Some game \<Rightarrow>
          if started game then (Inl AlreadyStarted, s)
          else if int (length (non_storytellers game)) \<noteq> cnt
            then (Inl (CountMismatch cnt (length (non_storytellers game))), s)
          else
            (case get_role_distribution s (edition game) cnt of
               Inl e \<Rightarrow> (Inl e, s)
             | Inr distribution \<Rightarrow>
                 (case select_random_characters s (edition game) distribution rs of
                    Inl e \<Rightarrow> (Inl e, s)
                  | Inr (selected, rs1) \<Rightarrow>
                      let game' = game\<lparr>players := assign_characters (players game) (shuffle selected rs1),
                                       started := True, player_count := Some cnt\<rparr>
                      in (Inr game', s\<lparr>games := (games s)(gid \<mapsto> game')\<rparr>))))"

section \<open>Night order and views\<close>

text \<open>One dictionary \<open>{"name": ..., "ability": ..., "order": ...}\<close> of the night order.\<close>

record NightEntry =
  night_name :: string
  night_ability :: string
  night_order :: int

record NightOrder =
  first_night_list :: "NightEntry list"
  other_nights_list :: "NightEntry list"

definition characters_in_game :: "Game \<Rightarrow> Character list" where
  "characters_in_game game = List.map_filter character (players game)"

text \<open>The dictionary built for one character, with the rank of the night in \<open>order\<close>.\<close>

definition night_entry :: "(Character \<Rightarrow> int) \<Rightarrow> Character \<Rightarrow> NightEntry" where
  "night_entry rank c = \<lparr>night_name = char_name c, night_ability = ability c, night_order = rank c\<rparr>"

text \<open>Python's \<open>sorted\<close> is stable, as \<open>sort_key\<close> is.\<close>

definition get_night_order :: "GameService \<Rightarrow> string \<Rightarrow> error + NightOrder" where
  "get_night_order s gid =
     (case games s gid of
        None \<Rightarrow> Inl NotFoundOrNotStarted
      | Some game \<Rightarrow>
          if \<not> started game then Inl NotFoundOrNotStarted
          else
            let cs = characters_in_game game;
                first = sort_key first_night (filter (\<lambda>c. first_night c > 0) cs);
                other = sort_key other_nights (filter (\<lambda>c. other_nights c > 0) cs)
            in Inr \<lparr>first_night_list = map (night_entry first_night) first,
                    other_nights_list = map (night_entry other_nights) other\<rparr>)"

text \<open>\<open>get_player_role\<close>: the character of the first player with the given id.\<close>

fun role_loop :: "Player list \<Rightarrow> string \<Rightarrow> Character option" where
  "role_loop [] pid = None"
| "role_loop (p # ps) pid = (if player_id p = pid then character p else role_loop ps pid)"

definition get_player_role :: "GameService \<Rightarrow> string \<Rightarrow> string \<Rightarrow> Character option" where
  "get_player_role s gid pid =
     (case games s gid of
        None \<Rightarrow> None
      | Some game \<Rightarrow> role_loop (players game) pid)"

text \<open>One entry of \<open>players_overview\<close> and the dictionary the overview returns.\<close>

record PlayerOverview =
  ov_name :: string
  ov_character :: "string option"
  ov_ability :: "string option"
  ov_type :: "CharacterType option"

record Overview =
  ov_game_id :: string
  ov_edition :: string
  ov_started :: bool
  ov_players :: "PlayerOverview list"
  ov_night_order :: "NightOrder option"

definition player_overview :: "Player \<Rightarrow> PlayerOverview" where
  "player_overview p =
     \<lparr>ov_name = player_name p,
      ov_character = (case character p of None \<Rightarrow> None | Some c \<Rightarrow> Some (char_name c)),
      ov_ability = (case character p of None \<Rightarrow> None | Some c \<Rightarrow> Some (ability c)),
      ov_type = (case character p of None \<Rightarrow> None | Some c \<Rightarrow> char_type c)\<rparr>"

definition get_storyteller_overview :: "GameService \<Rightarrow> string \<Rightarrow> string \<Rightarrow> error + Overview" where
  "get_storyteller_overview s gid pid =
     (case games s gid of
        None \<Rightarrow> Inl OverviewGameNotFound
      | Some game \<Rightarrow>
          (case find (\<lambda>p. player_id p = pid \<and> is_storyteller p) (players game) of
             None \<Rightarrow> Inl OnlyStoryteller
           | Some storyteller \<Rightarrow>
               let players_overview = map player_overview (non_storytellers game)
               in if started game
                  then (case get_night_order s gid of
                          Inl e \<Rightarrow> Inl e
                        | Inr order \<Rightarrow>
                            Inr \<lparr>ov_game_id = game_id game, ov_edition = edition game,
                                 ov_started = started game, ov_players = players_overview,
                                 ov_night_order = Some order\<rparr>)
                  else Inr \<lparr>ov_game_id = game_id game, ov_edition = edition game,
                            ov_started = started game, ov_players = players_overview,
                            ov_night_order = None\<rparr>))"

section \<open>Runs of the service\<close>

text \<open>
  A call of one of the three mutating operations, with the identifiers and draws it
  generates. A failed call leaves the state it returns, as the exception does.
\<close>

datatype call =
    CreateGame string string string string
  | JoinGame string string string
  | StartGame string int "nat list"

fun apply_call :: "GameService \<Rightarrow> call \<Rightarrow> GameService" where
  "apply_call s (CreateGame ed name new_game_id new_player_id) =
     snd (create_game s ed name new_game_id new_player_id)"
| "apply_call s (JoinGame gid name new_player_id) = snd (join_game s gid name new_player_id)"
| "apply_call s (StartGame gid cnt rs) = snd (start_game s gid cnt rs)"

text \<open>\<open>GameService()\<close>: no games, the catalog loaded.\<close>

definition init_service :: "(string \<rightharpoonup> Edition) \<Rightarrow> GameService" where
  "init_service catalog = \<lparr>games = Map.empty, editions_data = catalog\<rparr>"

definition run :: "(string \<rightharpoonup> Edition) \<Rightarrow> call list \<Rightarrow> GameService" where
  "run catalog calls = foldl apply_call (init_service catalog) calls"

section \<open>Auxiliary notions for the proofs\<close>

text \<open>
  The assignment loop seen from \<open>game.players\<close>: walking the list, each player who is
  not the storyteller takes the next character, until the characters run out.
  Lemma \<open>assign_characters_walk\<close> shows that this is what \<open>assign_characters\<close> computes.
\<close>

fun assign_walk :: "Player list \<Rightarrow> Character list \<Rightarrow> Player list" where
  "assign_walk [] cs = []"
| "assign_walk (p # ps) cs =
     (if is_storyteller p then p # assign_walk ps cs
      else (case cs of
              [] \<Rightarrow> p # ps
            | c # cs' \<Rightarrow> p\<lparr>character := Some c\<rparr> # assign_walk ps cs'))"

text \<open>
  The shape of every game the service builds: the storyteller comes first and has no
  character, nobody after is a storyteller, and nobody has a character before the
  game is started.
\<close>

definition game_ok :: "Game \<Rightarrow> bool" where
  "game_ok g =
     (case players g of
        [] \<Rightarrow> False
      | h # rest \<Rightarrow>
          is_storyteller h \<and> character h = None \<and> list_all (\<lambda>p. \<not> is_storyteller p) rest
          \<and> (started g \<or> list_all (\<lambda>p. character p = None) rest))"

definition service_ok :: "GameService \<Rightarrow> bool" where
  "service_ok s = (\<forall>gid g. games s gid = Some g \<longrightarrow> game_ok g)"

text \<open>
  \<open>bucket e t\<close> is the bucket of type \<open>t\<close> of an edition (empty when the edition has
  none) and \<open>catalog_ids e\<close> lists the identifiers of all entries of the four buckets.
\<close>

definition bucket :: "Edition \<Rightarrow> CharacterType \<Rightarrow> CharEntry list" where
  "bucket e t = (case characters e t of None \<Rightarrow> [] | Some es \<Rightarrow> es)"

definition catalog_ids :: "Edition \<Rightarrow> string list" where
  "catalog_ids e = concat (map (\<lambda>t. map entry_id (bucket e t)) [TOWNSFOLK, OUTSIDER, MINION, DEMON])"

section \<open>A small catalog and some runs, for the concrete instances\<close>

definition chef_entry :: CharEntry where
  "chef_entry = \<lparr>entry_id = ''chef'', entry_name = ''Chef'', entry_ability = ''pairs'',
                  entry_first_night = 2, entry_other_nights = 0\<rparr>"

definition monk_entry :: CharEntry where
  "monk_entry = \<lparr>entry_id = ''monk'', entry_name = ''Monk'', entry_ability = ''protects'',
                  entry_first_night = 0, entry_other_nights = 3\<rparr>"

definition imp_entry :: CharEntry where
  "imp_entry = \<lparr>entry_id = ''imp'', entry_name = ''Imp'', entry_ability = ''kills'',
                 entry_first_night = 1, entry_other_nights = 5\<rparr>"

definition demo_edition :: Edition where
  "demo_edition =
     \<lparr>edition_name = ''Demo'',
      characters = [TOWNSFOLK \<mapsto> [chef_entry, monk_entry], DEMON \<mapsto> [imp_entry]],
      setup_table = [2 \<mapsto> [(TOWNSFOLK, 1), (DEMON, 1)], 3 \<mapsto> [(TOWNSFOLK, 1), (DEMON, 4)]]\<rparr>"

definition demo_catalog :: "string \<rightharpoonup> Edition" where
  "demo_catalog = [''demo'' \<mapsto> demo_edition]"

definition chef :: Character where
  "chef = \<lparr>char_id = ''chef'', char_name = ''Chef'', ability = ''pairs'',
            first_night = 2, other_nights = 0, char_type = Some TOWNSFOLK\<rparr>"

definition monk :: Character where
  "monk = \<lparr>char_id = ''monk'', char_name = ''Monk'', ability = ''protects'',
            first_night = 0, other_nights = 3, char_type = Some TOWNSFOLK\<rparr>"

definition imp :: Character where
  "imp = \<lparr>char_id = ''imp'', char_name = ''Imp'', ability = ''kills'',
           first_night = 1, other_nights = 5, char_type = Some DEMON\<rparr>"

definition alice :: Player where
  "alice = \<lparr>player_id = ''p0'', player_name = ''Alice'', character = None, is_storyteller = True\<rparr>"

definition bob :: Player where
  "bob = \<lparr>player_id = ''p1'', player_name = ''Bob'', character = None, is_storyteller = False\<rparr>"

definition carol :: Player where
  "carol = \<lparr>player_id = ''p2'', player_name = ''Carol'', character = None, is_storyteller = False\<rparr>"

definition dave :: Player where
  "dave = \<lparr>player_id = ''p3'', player_name = ''Dave'', character = None, is_storyteller = False\<rparr>"

text \<open>Alice creates a game, Bob and Carol join it.\<close>

definition demo_lobby_calls :: "call list" where
  "demo_lobby_calls =
     [CreateGame ''demo'' ''Alice'' ''g1'' ''p0'',
      JoinGame ''g1'' ''Bob'' ''p1'',
      JoinGame ''g1'' ''Carol'' ''p2'']"

definition demo_lobby_game :: Game where
  "demo_lobby_game = \<lparr>game_id = ''g1'', edition = ''demo'', players = [alice, bob, carol],
                       started = False, player_count = None\<rparr>"

definition demo_lobby :: GameService where
  "demo_lobby = run demo_catalog demo_lobby_calls"

text \<open>The game is started for two players; the generator draws 1, 0 and 1.\<close>

definition demo_started_game :: Game where
  "demo_started_game =
     \<lparr>game_id = ''g1'', edition = ''demo'',
      players = [alice, bob\<lparr>character := Some imp\<rparr>, carol\<lparr>character := Some monk\<rparr>],
      started = True, player_count = Some 2\<rparr>"

definition demo_started :: GameService where
  "demo_started = run demo_catalog (demo_lobby_calls @ [StartGame ''g1'' 2 [1, 0, 1]])"

text \<open>
  Dave joins the lobby as well. For three players the table asks for one townsfolk and
  four demons, and the catalog has one demon: two characters for three players.
\<close>

definition demo_lobby3_game :: Game where
  "demo_lobby3_game = \<lparr>game_id = ''g1'', edition = ''demo'', players = [alice, bob, carol, dave],
                        started = False, player_count = None\<rparr>"

definition demo_lobby3 :: GameService where
  "demo_lobby3 = run demo_catalog (demo_lobby_calls @ [JoinGame ''g1'' ''Dave'' ''p3''])"

definition demo_started3_game :: Game where
  "demo_started3_game =
     \<lparr>game_id = ''g1'', edition = ''demo'',
      players = [alice, bob\<lparr>character := Some imp\<rparr>, carol\<lparr>character := Some chef\<rparr>, dave],
      started = True, player_count = Some 3\<rparr>"

text \<open>
  A second catalog, in which the townsfolk bucket and the demon bucket each hold an
  entry with the identifier \<open>same\<close>. Alice creates a game for it, Bob and Carol join.
\<close>

definition twin_entry :: CharEntry where
  "twin_entry = \<lparr>entry_id = ''same'', entry_name = ''Twin'', entry_ability = ''mirrors'',
                  entry_first_night = 1, entry_other_nights = 1\<rparr>"

definition twin_edition :: Edition where
  "twin_edition =
     \<lparr>edition_name = ''Twins'',
      characters = [TOWNSFOLK \<mapsto> [twin_entry], OUTSIDER \<mapsto> [], MINION \<mapsto> [],
                    DEMON \<mapsto> [twin_entry]],
      setup_table = [2 \<mapsto> [(TOWNSFOLK, 1), (DEMON, 1)]]\<rparr>"

definition twin_catalog :: "string \<rightharpoonup> Edition" where
  "twin_catalog = [''twins'' \<mapsto> twin_edition]"

definition twin_calls :: "call list" where
  "twin_calls =
     [CreateGame ''twins'' ''Alice'' ''g1'' ''p0'',
      JoinGame ''g1'' ''Bob'' ''p1'',
      JoinGame ''g1'' ''Carol'' ''p2'']"

definition twin_lobby :: GameService where
  "twin_lobby = run twin_catalog twin_calls"

definition twin_lobby_game :: Game where
  "twin_lobby_game = \<lparr>game_id = ''g1'', edition = ''twins'', players = [alice, bob, carol],
                       started = False, player_count = None\<rparr>"

definition twin_townsfolk :: Character where
  "twin_townsfolk = \<lparr>char_id = ''same'', char_name = ''Twin'', ability = ''mirrors'',
                      first_night = 1, other_nights = 1, char_type = Some TOWNSFOLK\<rparr>"

definition twin_demon :: Character where
  "twin_demon = \<lparr>char_id = ''same'', char_name = ''Twin'', ability = ''mirrors'',
                  first_night = 1, other_nights = 1, char_type = Some DEMON\<rparr>"

definition twin_started_game :: Game where
  "twin_started_game =
     \<lparr>game_id = ''g1'', edition = ''twins'',
      players = [alice, bob\<lparr>character := Some twin_townsfolk\<rparr>,
                 carol\<lparr>character := Some twin_demon\<rparr>],
      started = True, player_count = Some 2\<rparr>"

section \<open>Evaluation of the concrete runs\<close>

lemmas demo_values =
  chef_entry_def monk_entry_def imp_entry_def chef_def monk_def imp_def
  alice_def bob_def carol_def dave_def

lemma run_snoc: "run c (calls @ [x]) = apply_call (run c calls) x"
  by (simp add: run_def)

lemma demo_lobby_games: "games demo_lobby = [''g1'' \<mapsto> demo_lobby_game]"
  by (simp add: demo_lobby_def demo_lobby_calls_def run_def init_service_def demo_catalog_def
      create_game_def join_game_def Let_def demo_lobby_game_def demo_values)

lemma demo_lobby_editions: "editions_data demo_lobby = demo_catalog"
  by (simp add: demo_lobby_def demo_lobby_calls_def run_def init_service_def demo_catalog_def
      create_game_def join_game_def Let_def)

lemma demo_lobby3_games: "games demo_lobby3 = [''g1'' \<mapsto> demo_lobby3_game]"
  unfolding demo_lobby3_def run_snoc demo_lobby_def[symmetric]
  by (simp add: join_game_def demo_lobby_games demo_lobby_game_def demo_lobby3_game_def Let_def
      demo_values)

lemma demo_lobby3_editions: "editions_data demo_lobby3 = demo_catalog"
  unfolding demo_lobby3_def run_snoc demo_lobby_def[symmetric]
  by (simp add: join_game_def demo_lobby_games demo_lobby_editions Let_def)

lemma demo_distribution2:
  "get_role_distribution demo_lobby ''demo'' 2 = Inr [(TOWNSFOLK, 1), (DEMON, 1)]"
  by (simp add: get_role_distribution_def demo_lobby_editions demo_catalog_def demo_edition_def)

lemma demo_select2:
  "select_random_characters demo_lobby ''demo'' [(TOWNSFOLK, 1), (DEMON, 1)] [1, 0, 1] =
     Inr ([monk, imp], [1])"
  by (simp add: select_random_characters_def demo_lobby_editions demo_catalog_def demo_edition_def
      random_sample_def mk_character_def Let_def demo_values)

lemma demo_shuffle2: "shuffle [monk, imp] [1] = [imp, monk]"
  by (simp add: shuffle_def Let_def)

lemma demo_start:
  "start_game demo_lobby ''g1'' 2 [1, 0, 1] =
     (Inr demo_started_game, demo_lobby\<lparr>games := [''g1'' \<mapsto> demo_started_game]\<rparr>)"
  unfolding start_game_def demo_lobby_games
  by (simp add: non_storytellers_def demo_distribution2 demo_select2 demo_shuffle2
      demo_lobby_game_def demo_started_game_def alice_def bob_def carol_def
      assign_characters_def non_storyteller_positions_def Let_def del: One_nat_def)

lemma demo_started_eq: "demo_started = demo_lobby\<lparr>games := [''g1'' \<mapsto> demo_started_game]\<rparr>"
  unfolding demo_started_def run_snoc demo_lobby_def[symmetric] apply_call.simps demo_start
  by simp

lemma demo_started_games: "games demo_started = [''g1'' \<mapsto> demo_started_game]"
  by (simp add: demo_started_eq)

lemma demo_distribution3:
  "get_role_distribution demo_lobby3 ''demo'' 3 = Inr [(TOWNSFOLK, 1), (DEMON, 4)]"
  by (simp add: get_role_distribution_def demo_lobby3_editions demo_catalog_def demo_edition_def)

lemma demo_select3:
  "select_random_characters demo_lobby3 ''demo'' [(TOWNSFOLK, 1), (DEMON, 4)] [0, 0, 1] =
     Inr ([chef, imp], [1])"
  by (simp add: select_random_characters_def demo_lobby3_editions demo_catalog_def demo_edition_def
      random_sample_def mk_character_def Let_def demo_values)

lemma demo_shuffle3: "shuffle [chef, imp] [1] = [imp, chef]"
  by (simp add: shuffle_def Let_def)

lemma demo_start3:
  "start_game demo_lobby3 ''g1'' 3 [0, 0, 1] =
     (Inr demo_started3_game, demo_lobby3\<lparr>games := [''g1'' \<mapsto> demo_started3_game]\<rparr>)"
  unfolding start_game_def demo_lobby3_games
  by (simp add: non_storytellers_def demo_distribution3 demo_select3 demo_shuffle3
      demo_lobby3_game_def demo_started3_game_def alice_def bob_def carol_def dave_def
      assign_characters_def non_storyteller_positions_def Let_def del: One_nat_def)

lemma twin_lobby_games: "games twin_lobby = [''g1'' \<mapsto> twin_lobby_game]"
  by (simp add: twin_lobby_def twin_calls_def run_def init_service_def twin_catalog_def
      create_game_def join_game_def Let_def twin_lobby_game_def alice_def bob_def carol_def)

lemma twin_lobby_editions: "editions_data twin_lobby = twin_catalog"
  by (simp add: twin_lobby_def twin_calls_def run_def init_service_def twin_catalog_def
      create_game_def join_game_def Let_def)

section \<open>Player role lookup\<close>

lemma role_loop_absent:
  "\<forall>p \<in> set ps. player_id p \<noteq> pid \<Longrightarrow> role_loop ps pid = None"
  by (induction ps) auto

lemma role_loop_first:
  "i < length ps \<Longrightarrow> player_id (ps ! i) = pid \<Longrightarrow> \<forall>j<i. player_id (ps ! j) \<noteq> pid
     \<Longrightarrow> role_loop ps pid = character (ps ! i)"
proof (induction ps arbitrary: i)
  case Nil
  then show ?case by simp
next
  case (Cons p ps)
  show ?case
  proof (cases i)
    case 0
    with Cons.prems show ?thesis by simp
  next
    case (Suc k)
    with Cons.prems have "player_id p \<noteq> pid" by auto
    moreover have "role_loop ps pid = character (ps ! k)"
      using Cons.prems Suc by (intro Cons.IH) auto
    ultimately show ?thesis using Suc by simp
  qed
qed

text \<open>
  Claim C8. \<open>get_player_role\<close> has no error result: its value is an optional character.
  It is \<open>None\<close> when the game is unknown and when no player of the game has the given
  id; otherwise it is the \<open>character\<close> field of the first player with that id, which
  is \<open>None\<close> as long as that player has no character.
\<close>

theorem get_player_role_absent_or_first:
  "(games s gid = None \<longrightarrow> get_player_role s gid pid = None) \<and>
   (\<forall>g. games s gid = Some g \<longrightarrow>
      ((\<forall>p \<in> set (players g). player_id p \<noteq> pid) \<longrightarrow> get_player_role s gid pid = None) \<and>
      (\<forall>i < length (players g).
         player_id (players g ! i) = pid \<and> (\<forall>j<i. player_id (players g ! j) \<noteq> pid) \<longrightarrow>
           get_player_role s gid pid = character (players g ! i)))"
  by (auto simp: get_player_role_def role_loop_absent role_loop_first)

theorem get_player_role_absent_or_first_witness:
  "get_player_role demo_started ''nope'' ''p2'' = None \<and>
   get_player_role demo_started ''g1'' ''p9'' = None \<and>
   get_player_role demo_lobby ''g1'' ''p2'' = None \<and>
   get_player_role demo_started ''g1'' ''p2'' = Some monk"
proof -
  have a: "get_player_role demo_started ''nope'' ''p2'' = None"
    using get_player_role_absent_or_first [of demo_started "''nope''" "''p2''"]
    by (simp add: demo_started_games)
  have b: "get_player_role demo_started ''g1'' ''p9'' = None"
    using get_player_role_absent_or_first [of demo_started "''g1''" "''p9''"]
    by (simp add: demo_started_games demo_started_game_def alice_def bob_def carol_def)
  have "get_player_role demo_lobby ''g1'' ''p2'' = character (players demo_lobby_game ! 2)"
    using get_player_role_absent_or_first [of demo_lobby "''g1''" "''p2''"]
    by (simp add: demo_lobby_games demo_lobby_game_def alice_def bob_def carol_def less_Suc_eq all_conj_distrib)
  then have c: "get_player_role demo_lobby ''g1'' ''p2'' = None"
    by (simp add: demo_lobby_game_def carol_def)
  have "get_player_role demo_started ''g1'' ''p2'' = character (players demo_started_game ! 2)"
    using get_player_role_absent_or_first [of demo_started "''g1''" "''p2''"]
    by (simp add: demo_started_games demo_started_game_def alice_def bob_def carol_def less_Suc_eq all_conj_distrib)
  then have d: "get_player_role demo_started ''g1'' ''p2'' = Some monk"
    by (simp add: demo_started_game_def carol_def)
  from a b c d show ?thesis by simp
qed

section \<open>Joining a game\<close>

text \<open>
  Claim C6. \<open>join_game\<close> fails with the not-found error when the game is unknown and
  with the already-started error when the game has started, leaving the service as it
  was. Otherwise it returns the new player, who is not a storyteller and has no
  character, and stores the game with this player appended to the end of its player
  list; the game's id, edition, started flag and recorded player count, the players
  who joined before, every other game and the catalog are unchanged.
\<close>

theorem join_game_appends:
  "(games s gid = None \<longrightarrow> join_game s gid name pid = (Inl (GameNotFound gid), s)) \<and>
   (\<forall>g. games s gid = Some g \<and> started g \<longrightarrow>
      join_game s gid name pid = (Inl AlreadyStarted, s)) \<and>
   (\<forall>g. games s gid = Some g \<and> \<not> started g \<longrightarrow>
      (\<exists>p s' g'.
         join_game s gid name pid = (Inr p, s') \<and>
         p = \<lparr>player_id = pid, player_name = name, character = None, is_storyteller = False\<rparr> \<and>
         games s' gid = Some g' \<and>
         players g' = players g @ [p] \<and>
         game_id g' = game_id g \<and> edition g' = edition g \<and>
         started g' = started g \<and> player_count g' = player_count g \<and>
         (\<forall>other. other \<noteq> gid \<longrightarrow> games s' other = games s other) \<and>
         editions_data s' = editions_data s))"
  by (simp add: join_game_def Let_def)

theorem join_game_appends_witness:
  "join_game demo_lobby ''zz'' ''Dave'' ''p3'' = (Inl (GameNotFound ''zz''), demo_lobby) \<and>
   join_game demo_started ''g1'' ''Dave'' ''p3'' = (Inl AlreadyStarted, demo_started) \<and>
   (\<exists>s' g'. join_game demo_lobby ''g1'' ''Dave'' ''p3'' = (Inr dave, s') \<and>
      games s' ''g1'' = Some g' \<and> players g' = [alice, bob, carol, dave] \<and>
      edition g' = ''demo'' \<and> \<not> started g')"
proof -
  have a: "join_game demo_lobby ''zz'' ''Dave'' ''p3'' = (Inl (GameNotFound ''zz''), demo_lobby)"
    using join_game_appends [of demo_lobby "''zz''" "''Dave''" "''p3''"]
    by (simp add: demo_lobby_games)
  have b: "join_game demo_started ''g1'' ''Dave'' ''p3'' = (Inl AlreadyStarted, demo_started)"
    using join_game_appends [of demo_started "''g1''" "''Dave''" "''p3''"]
    by (simp add: demo_started_games demo_started_game_def)
  have c: "\<exists>s' g'. join_game demo_lobby ''g1'' ''Dave'' ''p3'' = (Inr dave, s') \<and>
      games s' ''g1'' = Some g' \<and> players g' = [alice, bob, carol, dave] \<and>
      edition g' = ''demo'' \<and> \<not> started g'"
    using join_game_appends [of demo_lobby "''g1''" "''Dave''" "''p3''"]
    by (auto simp: demo_lobby_games demo_lobby_game_def dave_def)
  from a b c show ?thesis by blast
qed

section \<open>Starting a game: the failures\<close>

text \<open>
  Claim C3. \<open>start_game\<close> fails with the not-found error when the game is unknown,
  with the already-started error when the game's \<open>started\<close> flag is set, and with the
  count-mismatch error when the game is not started and the number of players who are
  not the storyteller differs from \<open>player_count\<close>; each time the service stays as it
  was. After a call that succeeded, every further call for the same game fails with the
  already-started error, whatever count and draws it is given.
\<close>

theorem start_game_failures:
  "(games s gid = None \<longrightarrow> start_game s gid n rs = (Inl (GameNotFound gid), s)) \<and>
   (\<forall>g. games s gid = Some g \<and> started g \<longrightarrow>
      start_game s gid n rs = (Inl AlreadyStarted, s)) \<and>
   (\<forall>g. games s gid = Some g \<and> \<not> started g \<and> int (length (non_storytellers g)) \<noteq> n \<longrightarrow>
      start_game s gid n rs = (Inl (CountMismatch n (length (non_storytellers g))), s)) \<and>
   (\<forall>g' s' n' rs'. start_game s gid n rs = (Inr g', s') \<longrightarrow>
      start_game s' gid n' rs' = (Inl AlreadyStarted, s'))"
proof -
  have again: "start_game s' gid n' rs' = (Inl AlreadyStarted, s')"
    if "start_game s gid n rs = (Inr g', s')" for g' s' n' rs'
  proof -
    from that have "games s' gid = Some g' \<and> started g'"
      by (auto simp: start_game_def Let_def split: option.splits if_splits sum.splits prod.splits)
    then show ?thesis by (simp add: start_game_def)
  qed
  show ?thesis
    using again by (simp add: start_game_def)
qed

theorem start_game_failures_witness:
  "start_game demo_lobby ''zz'' 2 [1, 0, 1] = (Inl (GameNotFound ''zz''), demo_lobby) \<and>
   start_game demo_started ''g1'' 2 [1, 0, 1] = (Inl AlreadyStarted, demo_started) \<and>
   start_game demo_lobby ''g1'' 5 [1, 0, 1] = (Inl (CountMismatch 5 2), demo_lobby) \<and>
   start_game (snd (start_game demo_lobby ''g1'' 2 [1, 0, 1])) ''g1'' 7 [] =
     (Inl AlreadyStarted, snd (start_game demo_lobby ''g1'' 2 [1, 0, 1]))"
proof -
  have a: "start_game demo_lobby ''zz'' 2 [1, 0, 1] = (Inl (GameNotFound ''zz''), demo_lobby)"
    using start_game_failures [of demo_lobby "''zz''" 2 "[1, 0, 1]"]
    by (simp add: demo_lobby_games)
  have b: "start_game demo_started ''g1'' 2 [1, 0, 1] = (Inl AlreadyStarted, demo_started)"
    using start_game_failures [of demo_started "''g1''" 2 "[1, 0, 1]"]
    by (simp add: demo_started_games demo_started_game_def)
  have c: "start_game demo_lobby ''g1'' 5 [1, 0, 1] = (Inl (CountMismatch 5 2), demo_lobby)"
    using start_game_failures [of demo_lobby "''g1''" 5 "[1, 0, 1]"]
    by (simp add: demo_lobby_games demo_lobby_game_def non_storytellers_def alice_def bob_def carol_def)
  have d: "start_game (snd (start_game demo_lobby ''g1'' 2 [1, 0, 1])) ''g1'' 7 [] =
     (Inl AlreadyStarted, snd (start_game demo_lobby ''g1'' 2 [1, 0, 1]))"
    using start_game_failures [of demo_lobby "''g1''" 2 "[1, 0, 1]"]
    unfolding demo_start by simp
  from a b c d show ?thesis by blast
qed

section \<open>Failed calls change nothing\<close>

text \<open>
  Claim C9. Whenever \<open>create_game\<close>, \<open>join_game\<close> or \<open>start_game\<close> returns an error,
  the service it leaves behind is the service it was called on: the store of games,
  every game in it and the catalog.
\<close>

theorem failed_call_keeps_service:
  "((\<exists>e. fst (create_game s ed storyteller new_gid new_pid) = Inl e) \<longrightarrow>
      snd (create_game s ed storyteller new_gid new_pid) = s) \<and>
   ((\<exists>e. fst (join_game s gid name pid) = Inl e) \<longrightarrow> snd (join_game s gid name pid) = s) \<and>
   ((\<exists>e. fst (start_game s gid n rs) = Inl e) \<longrightarrow> snd (start_game s gid n rs) = s)"
  by (auto simp: create_game_def join_game_def start_game_def Let_def
      split: option.splits if_splits sum.splits prod.splits)

theorem failed_call_keeps_service_witness:
  "fst (create_game demo_lobby ''zz'' ''Eve'' ''g2'' ''p7'') = Inl (EditionNotFound ''zz'') \<and>
   snd (create_game demo_lobby ''zz'' ''Eve'' ''g2'' ''p7'') = demo_lobby \<and>
   fst (join_game demo_started ''g1'' ''Dave'' ''p3'') = Inl AlreadyStarted \<and>
   snd (join_game demo_started ''g1'' ''Dave'' ''p3'') = demo_started \<and>
   fst (start_game demo_lobby ''g1'' 4 []) = Inl (CountMismatch 4 2) \<and>
   snd (start_game demo_lobby ''g1'' 4 []) = demo_lobby"
proof -
  have a: "fst (create_game demo_lobby ''zz'' ''Eve'' ''g2'' ''p7'') = Inl (EditionNotFound ''zz'')"
    by (simp add: create_game_def demo_lobby_editions demo_catalog_def)
  have b: "fst (join_game demo_started ''g1'' ''Dave'' ''p3'') = Inl AlreadyStarted"
    by (simp add: join_game_def demo_started_games demo_started_game_def)
  have c: "fst (start_game demo_lobby ''g1'' 4 []) = Inl (CountMismatch 4 2)"
    by (simp add: start_game_def demo_lobby_games demo_lobby_game_def non_storytellers_def
        alice_def bob_def carol_def)
  show ?thesis
    using a b c
      failed_call_keeps_service [of demo_lobby "''zz''" "''Eve''" "''g2''" "''p7''"
        "''g1''" "''Dave''" "''p3''" 4 "[]"]
      failed_call_keeps_service [of demo_started "''zz''" "''Eve''" "''g2''" "''p7''"
        "''g1''" "''Dave''" "''p3''" 4 "[]"]
    by simp
qed

section \<open>Night order\<close>

lemma night_order_entry [simp]: "night_order (night_entry rank c) = rank c"
  by (simp add: night_entry_def)








section \<open>Storyteller overview\<close>

lemma find_storyteller_None:
  "find (\<lambda>p. player_id p = pid \<and> is_storyteller p) ps = None \<longleftrightarrow>
     \<not> (\<exists>p \<in> set ps. player_id p = pid \<and> is_storyteller p)"
  by (auto simp: find_None_iff)

lemma get_night_order_started:
  "games s gid = Some g \<Longrightarrow> started g \<Longrightarrow> \<exists>order. get_night_order s gid = Inr order"
  by (simp add: get_night_order_def Let_def)

text \<open>
  Claim C7. For an existing game, \<open>get_storyteller_overview\<close> fails with the error
  "Nur der Erzaehler kann diese Ansicht sehen" whenever no storyteller of the game has
  the given id, started or not. When the id is the storyteller's, it returns an
  overview with one entry per player who is not the storyteller, in order: the player's
  name and the name, ability and type of the player's character, all three absent when
  the player has no character. The overview carries the night order that
  \<open>get_night_order\<close> returns when the game is started and no night order otherwise.
\<close>

theorem get_storyteller_overview_host_only:
  "(\<forall>g. games s gid = Some g \<and> \<not> (\<exists>p \<in> set (players g). player_id p = pid \<and> is_storyteller p) \<longrightarrow>
      get_storyteller_overview s gid pid = Inl OnlyStoryteller) \<and>
   (\<forall>g. games s gid = Some g \<and> (\<exists>p \<in> set (players g). player_id p = pid \<and> is_storyteller p) \<longrightarrow>
      (\<exists>ov.
         get_storyteller_overview s gid pid = Inr ov \<and>
         ov_game_id ov = game_id g \<and> ov_edition ov = edition g \<and> ov_started ov = started g \<and>
         length (ov_players ov) = length (non_storytellers g) \<and>
         (\<forall>i < length (non_storytellers g).
            ov_name (ov_players ov ! i) = player_name (non_storytellers g ! i) \<and>
            (character (non_storytellers g ! i) = None \<longrightarrow>
               ov_character (ov_players ov ! i) = None \<and>
               ov_ability (ov_players ov ! i) = None \<and>
               ov_type (ov_players ov ! i) = None) \<and>
            (\<forall>c. character (non_storytellers g ! i) = Some c \<longrightarrow>
               ov_character (ov_players ov ! i) = Some (char_name c) \<and>
               ov_ability (ov_players ov ! i) = Some (ability c) \<and>
               ov_type (ov_players ov ! i) = char_type c)) \<and>
         (started g \<longrightarrow> (\<exists>order. get_night_order s gid = Inr order \<and> ov_night_order ov = Some order)) \<and>
         (\<not> started g \<longrightarrow> ov_night_order ov = None)))"
proof (intro conjI allI impI)
  fix g
  assume "games s gid = Some g \<and> \<not> (\<exists>p \<in> set (players g). player_id p = pid \<and> is_storyteller p)"
  then have "games s gid = Some g"
    and "find (\<lambda>p. player_id p = pid \<and> is_storyteller p) (players g) = None"
    using find_storyteller_None [of pid "players g"] by blast+
  then show "get_storyteller_overview s gid pid = Inl OnlyStoryteller"
    by (simp add: get_storyteller_overview_def)
next
  fix g
  assume a: "games s gid = Some g \<and> (\<exists>p \<in> set (players g). player_id p = pid \<and> is_storyteller p)"
  then obtain st where st: "find (\<lambda>p. player_id p = pid \<and> is_storyteller p) (players g) = Some st"
    using find_storyteller_None [of pid "players g"] by (cases "find (\<lambda>p. player_id p = pid \<and> is_storyteller p) (players g)") auto
  show "\<exists>ov.
         get_storyteller_overview s gid pid = Inr ov \<and>
         ov_game_id ov = game_id g \<and> ov_edition ov = edition g \<and> ov_started ov = started g \<and>
         length (ov_players ov) = length (non_storytellers g) \<and>
         (\<forall>i < length (non_storytellers g).
            ov_name (ov_players ov ! i) = player_name (non_storytellers g ! i) \<and>
            (character (non_storytellers g ! i) = None \<longrightarrow>
               ov_character (ov_players ov ! i) = None \<and>
               ov_ability (ov_players ov ! i) = None \<and>
               ov_type (ov_players ov ! i) = None) \<and>
            (\<forall>c. character (non_storytellers g ! i) = Some c \<longrightarrow>
               ov_character (ov_players ov ! i) = Some (char_name c) \<and>
               ov_ability (ov_players ov ! i) = Some (ability c) \<and>
               ov_type (ov_players ov ! i) = char_type c)) \<and>
         (started g \<longrightarrow> (\<exists>order. get_night_order s gid = Inr order \<and> ov_night_order ov = Some order)) \<and>
         (\<not> started g \<longrightarrow> ov_night_order ov = None)"
  proof (cases "started g")
    case True
    with a obtain order where o: "get_night_order s gid = Inr order"
      using get_night_order_started by blast
    show ?thesis
      using a st True o
      by (simp add: get_storyteller_overview_def Let_def player_overview_def)
  next
    case False
    show ?thesis
      using a st False
      by (simp add: get_storyteller_overview_def Let_def player_overview_def)
  qed
qed

lemma demo_started_non_storytellers:
  "non_storytellers demo_started_game = [bob\<lparr>character := Some imp\<rparr>, carol\<lparr>character := Some monk\<rparr>]"
  by (simp add: non_storytellers_def demo_started_game_def alice_def bob_def carol_def)

theorem get_storyteller_overview_host_only_witness:
  "get_storyteller_overview demo_lobby ''g1'' ''p1'' = Inl OnlyStoryteller \<and>
   get_storyteller_overview demo_started ''g1'' ''p1'' = Inl OnlyStoryteller \<and>
   (\<exists>ov. get_storyteller_overview demo_started ''g1'' ''p0'' = Inr ov \<and>
      ov_started ov \<and> length (ov_players ov) = 2 \<and>
      ov_name (ov_players ov ! 0) = ''Bob'' \<and> ov_character (ov_players ov ! 0) = Some ''Imp'' \<and>
      ov_type (ov_players ov ! 0) = Some DEMON \<and> ov_night_order ov \<noteq> None)"
proof -
  have a: "get_storyteller_overview demo_lobby ''g1'' ''p1'' = Inl OnlyStoryteller"
    using get_storyteller_overview_host_only [of demo_lobby "''g1''" "''p1''"]
    by (simp add: demo_lobby_games demo_lobby_game_def alice_def bob_def carol_def)
  have b: "get_storyteller_overview demo_started ''g1'' ''p1'' = Inl OnlyStoryteller"
    using get_storyteller_overview_host_only [of demo_started "''g1''" "''p1''"]
    by (simp add: demo_started_games demo_started_game_def alice_def bob_def carol_def)
  have h: "games demo_started ''g1'' = Some demo_started_game \<and>
      (\<exists>p \<in> set (players demo_started_game). player_id p = ''p0'' \<and> is_storyteller p)"
    by (simp add: demo_started_games demo_started_game_def alice_def)
  from get_storyteller_overview_host_only [of demo_started "''g1''" "''p0''"] h
  obtain ov where r: "get_storyteller_overview demo_started ''g1'' ''p0'' = Inr ov"
    and st: "ov_started ov = started demo_started_game"
    and len: "length (ov_players ov) = length (non_storytellers demo_started_game)"
    and each: "\<forall>i < length (non_storytellers demo_started_game).
            ov_name (ov_players ov ! i) = player_name (non_storytellers demo_started_game ! i) \<and>
            (character (non_storytellers demo_started_game ! i) = None \<longrightarrow>
               ov_character (ov_players ov ! i) = None \<and>
               ov_ability (ov_players ov ! i) = None \<and>
               ov_type (ov_players ov ! i) = None) \<and>
            (\<forall>c. character (non_storytellers demo_started_game ! i) = Some c \<longrightarrow>
               ov_character (ov_players ov ! i) = Some (char_name c) \<and>
               ov_ability (ov_players ov ! i) = Some (ability c) \<and>
               ov_type (ov_players ov ! i) = char_type c)"
    and no: "started demo_started_game \<longrightarrow>
       (\<exists>order. get_night_order demo_started ''g1'' = Inr order \<and> ov_night_order ov = Some order)"
    by blast
  from each have "ov_name (ov_players ov ! 0) = ''Bob'' \<and>
      ov_character (ov_players ov ! 0) = Some ''Imp'' \<and> ov_type (ov_players ov ! 0) = Some DEMON"
    unfolding demo_started_non_storytellers by (simp add: bob_def imp_def)
  moreover have "ov_started ov" "length (ov_players ov) = 2" "ov_night_order ov \<noteq> None"
    using st len no unfolding demo_started_non_storytellers
    by (auto simp: demo_started_game_def)
  ultimately have c: "\<exists>ov. get_storyteller_overview demo_started ''g1'' ''p0'' = Inr ov \<and>
      ov_started ov \<and> length (ov_players ov) = 2 \<and>
      ov_name (ov_players ov ! 0) = ''Bob'' \<and> ov_character (ov_players ov ! 0) = Some ''Imp'' \<and>
      ov_type (ov_players ov ! 0) = Some DEMON \<and> ov_night_order ov \<noteq> None"
    using r by blast
  from a b c show ?thesis by blast
qed

section \<open>The assignment loop\<close>

lemma non_storyteller_positions_Cons:
  "non_storyteller_positions (p # ps) =
     (if is_storyteller p then [] else [0]) @ map Suc (non_storyteller_positions ps)"
  unfolding non_storyteller_positions_def
  by (simp add: upt_conv_Cons filter_map o_def del: upt_Suc flip: map_Suc_upt)

lemma assign_fold_shift:
  "fold (\<lambda>(i, c) qs. qs[i := (qs ! i)\<lparr>character := Some c\<rparr>]) (zip (map Suc is) cs) (p # ps) =
     p # fold (\<lambda>(i, c) qs. qs[i := (qs ! i)\<lparr>character := Some c\<rparr>]) (zip is cs) ps"
  by (induction "is" arbitrary: cs ps) (auto split: list.splits simp: zip_Cons1)

lemma assign_characters_walk: "assign_characters ps cs = assign_walk ps cs"
  unfolding assign_characters_def
proof (induction ps arbitrary: cs)
  case Nil
  then show ?case by (simp add: non_storyteller_positions_def)
next
  case (Cons p ps)
  then show ?case
    by (simp add: non_storyteller_positions_Cons assign_fold_shift split: list.splits)
qed

lemma assign_walk_non_storytellers:
  "filter (\<lambda>p. \<not> is_storyteller p) (assign_walk ps cs) =
     map (\<lambda>(p, c). p\<lparr>character := Some c\<rparr>) (zip (filter (\<lambda>p. \<not> is_storyteller p) ps) cs)
     @ drop (length cs) (filter (\<lambda>p. \<not> is_storyteller p) ps)"
  by (induction ps cs rule: assign_walk.induct) (auto split: list.splits)

lemma assign_walk_storytellers:
  "filter is_storyteller (assign_walk ps cs) = filter is_storyteller ps"
  by (induction ps cs rule: assign_walk.induct) (auto split: list.splits)

lemma assign_walk_ids: "map player_id (assign_walk ps cs) = map player_id ps"
  by (induction ps cs rule: assign_walk.induct) (auto split: list.splits)

lemma assign_walk_names: "map player_name (assign_walk ps cs) = map player_name ps"
  by (induction ps cs rule: assign_walk.induct) (auto split: list.splits)

lemma assign_walk_all_players:
  "list_all (\<lambda>p. \<not> is_storyteller p) ps \<Longrightarrow>
     assign_walk ps cs = map (\<lambda>(p, c). p\<lparr>character := Some c\<rparr>) (zip ps cs) @ drop (length cs) ps"
  by (induction ps cs rule: assign_walk.induct) (auto split: list.splits)

lemma assign_walk_keeps_players:
  "list_all (\<lambda>p. \<not> is_storyteller p) ps \<Longrightarrow> list_all (\<lambda>p. \<not> is_storyteller p) (assign_walk ps cs)"
  by (induction ps cs rule: assign_walk.induct) (auto split: list.splits)

lemma map_filter_none:
  "list_all (\<lambda>p. character p = None) ps \<Longrightarrow> List.map_filter character ps = []"
  by (induction ps) auto

lemma filter_character_none:
  "list_all (\<lambda>p. character p = None) ps \<Longrightarrow> filter (\<lambda>p. \<exists>c. character p = Some c) ps = []"
  by (induction ps) auto

lemma assign_walk_characters:
  "list_all (\<lambda>p. \<not> is_storyteller p) ps \<Longrightarrow> list_all (\<lambda>p. character p = None) ps \<Longrightarrow>
     List.map_filter character (assign_walk ps cs) = take (length ps) cs"
  by (induction ps cs rule: assign_walk.induct)
     (auto split: list.splits simp: map_filter_none)

lemma assign_walk_with_character:
  "list_all (\<lambda>p. \<not> is_storyteller p) ps \<Longrightarrow> list_all (\<lambda>p. character p = None) ps \<Longrightarrow>
     length (filter (\<lambda>p. character p \<noteq> None) (assign_walk ps cs)) = min (length ps) (length cs)"
  by (induction ps cs rule: assign_walk.induct) (auto split: list.splits simp: filter_character_none)

section \<open>Samples and shuffles\<close>

lemma pick_length: "k \<le> length pool \<Longrightarrow> length (fst (pick k pool rs)) = k"
proof (induction k arbitrary: pool rs)
  case 0
  then show ?case by simp
next
  case (Suc k)
  then have ne: "pool \<noteq> []" by auto
  define j where "j = (case rs of [] \<Rightarrow> 0 | r # _ \<Rightarrow> r mod length pool)"
  have j: "j < length pool" using ne by (auto simp: j_def split: list.splits)
  have "length (fst (pick k (take j pool @ drop (Suc j) pool) (tl rs))) = k"
    using Suc.prems j by (intro Suc.IH) auto
  then show ?case using ne by (auto simp: j_def [symmetric] Let_def split: prod.splits)
qed

lemma pick_mset: "mset (fst (pick k pool rs)) \<subseteq># mset pool"
proof (induction k arbitrary: pool rs)
  case 0
  then show ?case by simp
next
  case (Suc k)
  show ?case
  proof (cases "pool = []")
    case True
    then show ?thesis by simp
  next
    case False
    define j where "j = (case rs of [] \<Rightarrow> 0 | r # _ \<Rightarrow> r mod length pool)"
    have j: "j < length pool" using False by (auto simp: j_def split: list.splits)
    let ?rest = "take j pool @ drop (Suc j) pool"
    have pool: "mset pool = add_mset (pool ! j) (mset ?rest)"
      using j by (metis append_take_drop_id Cons_nth_drop_Suc mset.simps(2) mset_append union_mset_add_mset_right)
    have "mset (fst (pick k ?rest (tl rs))) \<subseteq># mset ?rest" by (rule Suc.IH)
    then show ?thesis using False
      by (auto simp: j_def [symmetric] Let_def pool split: prod.splits)
  qed
qed

lemma shuffle_mset: "mset (shuffle xs rs) = mset xs"
proof -
  have sub: "mset (shuffle xs rs) \<subseteq># mset xs" by (simp add: shuffle_def pick_mset)
  moreover have "size (mset (shuffle xs rs)) = size (mset xs)"
    by (simp add: shuffle_def pick_length)
  ultimately have "size (mset xs - mset (shuffle xs rs)) = 0"
    by (simp add: size_Diff_submset)
  then have "mset xs - mset (shuffle xs rs) = {#}" by simp
  with sub show ?thesis
    by (metis subset_mset.diff_add add.left_neutral)
qed

lemma shuffle_length: "length (shuffle xs rs) = length xs"
  by (simp add: shuffle_def pick_length)

text \<open>
  The model of the generator leaves no outcome out: every list that takes no element
  more often than the pool holds it is what \<open>pick\<close> returns for suitable draws.
\<close>

lemma mset_without:
  assumes "j < length pool"
  shows "mset pool = add_mset (pool ! j) (mset (take j pool @ drop (Suc j) pool))"
  using assms
  by (metis append_take_drop_id Cons_nth_drop_Suc mset.simps(2) mset_append union_mset_add_mset_right)

lemma pick_any:
  assumes "mset ys \<subseteq># mset pool"
  shows "\<exists>rs. fst (pick (length ys) pool rs) = ys"
  using assms
proof (induction ys arbitrary: pool)
  case Nil
  then show ?case by simp
next
  case (Cons y ys)
  then have "y \<in> set pool"
    by (metis mset_subset_eqD set_mset_mset list.set_intros(1))
  then obtain j where j: "j < length pool" and y: "pool ! j = y"
    by (auto simp: in_set_conv_nth)
  let ?rest = "take j pool @ drop (Suc j) pool"
  have "add_mset y (mset ys) \<subseteq># add_mset y (mset ?rest)"
    using Cons.prems mset_without [OF j] y by simp
  then have "mset ys \<subseteq># mset ?rest" by simp
  from Cons.IH [OF this] obtain rs where rs: "fst (pick (length ys) ?rest rs) = ys" by blast
  have "fst (pick (length (y # ys)) pool (j # rs)) = y # ys"
    using j y rs by (auto simp: Let_def split: prod.splits)
  then show ?case by blast
qed

section \<open>Starting a game: the assignment\<close>

lemma start_game_success:
  assumes "start_game s gid n rs = (Inr g', s')"
  shows "\<exists>g d selected rs1.
           games s gid = Some g \<and> \<not> started g \<and> int (length (non_storytellers g)) = n \<and>
           get_role_distribution s (edition g) n = Inr d \<and>
           select_random_characters s (edition g) d rs = Inr (selected, rs1) \<and>
           g' = g\<lparr>players := assign_walk (players g) (shuffle selected rs1),
                  started := True, player_count := Some n\<rparr> \<and>
           s' = s\<lparr>games := (games s)(gid \<mapsto> g')\<rparr>"
  using assms
  by (auto simp: start_game_def Let_def assign_characters_walk
      split: option.splits if_splits sum.splits prod.splits)

lemma start_game_succeeds:
  assumes "games s gid = Some g" and "\<not> started g" and "int (length (non_storytellers g)) = n"
    and "get_role_distribution s (edition g) n = Inr d"
    and "select_random_characters s (edition g) d rs = Inr (selected, rs1)"
  shows "start_game s gid n rs =
           (Inr (g\<lparr>players := assign_walk (players g) (shuffle selected rs1),
                    started := True, player_count := Some n\<rparr>),
            s\<lparr>games := (games s)(gid \<mapsto> g\<lparr>players := assign_walk (players g) (shuffle selected rs1),
                    started := True, player_count := Some n\<rparr>)\<rparr>)"
  using assms by (simp add: start_game_def Let_def assign_characters_walk)

lemma zipped_nth:
  assumes "i < length ps"
  shows "(map (\<lambda>(p, c). p\<lparr>character := Some c\<rparr>) (zip ps cs) @ drop (length cs) ps) ! i =
           (if i < length cs then (ps ! i)\<lparr>character := Some (cs ! i)\<rparr> else ps ! i)"
  using assms by (auto simp: nth_append min_def)

lemma zipped_length:
  "length (map (\<lambda>(p, c). p\<lparr>character := Some c\<rparr>) (zip ps cs) @ drop (length cs) ps) = length ps"
  by auto

lemma started_non_storytellers:
  "non_storytellers (g\<lparr>players := assign_walk (players g) cs, started := True, player_count := Some n\<rparr>) =
     map (\<lambda>(p, c). p\<lparr>character := Some c\<rparr>) (zip (non_storytellers g) cs)
     @ drop (length cs) (non_storytellers g)"
  by (simp add: non_storytellers_def assign_walk_non_storytellers)

text \<open>
  Claim C1. When \<open>start_game\<close> succeeds, the game was stored and the distribution and
  the selection succeeded. With \<open>shuffle selected rs1\<close> the shuffled selection (a
  rearrangement of the selected characters), the players who are not the storyteller are
  the same in number and order as before, the \<open>i\<close>-th of them now holds the \<open>i\<close>-th
  shuffled character and is otherwise unchanged, and those beyond the end of the shuffled
  list are unchanged altogether. The storyteller entries are unchanged, \<open>started\<close> is
  set, \<open>player_count\<close> is recorded, and this game replaces the old one in the store.
  Second part: with fewer selected characters than players the call succeeds all the
  same, and the trailing players are as they were.
\<close>

theorem start_game_assigns:
  "(\<forall>g' s'. start_game s gid n rs = (Inr g', s') \<longrightarrow>
      (\<exists>g d selected rs1.
         games s gid = Some g \<and>
         get_role_distribution s (edition g) n = Inr d \<and>
         select_random_characters s (edition g) d rs = Inr (selected, rs1) \<and>
         mset (shuffle selected rs1) = mset selected \<and>
         length (non_storytellers g') = length (non_storytellers g) \<and>
         (\<forall>i < length (non_storytellers g).
            non_storytellers g' ! i =
              (if i < length (shuffle selected rs1)
               then (non_storytellers g ! i)\<lparr>character := Some (shuffle selected rs1 ! i)\<rparr>
               else non_storytellers g ! i)) \<and>
         filter is_storyteller (players g') = filter is_storyteller (players g) \<and>
         started g' \<and> player_count g' = Some n \<and> n = int (length (non_storytellers g)) \<and>
         game_id g' = game_id g \<and> edition g' = edition g \<and>
         s' = s\<lparr>games := (games s)(gid \<mapsto> g')\<rparr>)) \<and>
   (\<forall>g d selected rs1.
      games s gid = Some g \<and> \<not> started g \<and> int (length (non_storytellers g)) = n \<and>
      get_role_distribution s (edition g) n = Inr d \<and>
      select_random_characters s (edition g) d rs = Inr (selected, rs1) \<and>
      length selected < length (non_storytellers g) \<longrightarrow>
        (\<exists>g' s'. start_game s gid n rs = (Inr g', s') \<and>
           (\<forall>i. length selected \<le> i \<and> i < length (non_storytellers g) \<longrightarrow>
              non_storytellers g' ! i = non_storytellers g ! i)))"
proof (intro conjI allI impI)
  fix g' s'
  assume "start_game s gid n rs = (Inr g', s')"
  from start_game_success [OF this] obtain g d selected rs1 where
    g: "games s gid = Some g" and n: "int (length (non_storytellers g)) = n"
    and d: "get_role_distribution s (edition g) n = Inr d"
    and sel: "select_random_characters s (edition g) d rs = Inr (selected, rs1)"
    and g': "g' = g\<lparr>players := assign_walk (players g) (shuffle selected rs1),
                  started := True, player_count := Some n\<rparr>"
    and s': "s' = s\<lparr>games := (games s)(gid \<mapsto> g')\<rparr>"
    by blast
  have ns: "non_storytellers g' =
      map (\<lambda>(p, c). p\<lparr>character := Some c\<rparr>) (zip (non_storytellers g) (shuffle selected rs1))
      @ drop (length (shuffle selected rs1)) (non_storytellers g)"
    unfolding g' by (rule started_non_storytellers)
  have len: "length (non_storytellers g') = length (non_storytellers g)"
    unfolding ns by (rule zipped_length)
  have each: "\<forall>i < length (non_storytellers g).
            non_storytellers g' ! i =
              (if i < length (shuffle selected rs1)
               then (non_storytellers g ! i)\<lparr>character := Some (shuffle selected rs1 ! i)\<rparr>
               else non_storytellers g ! i)"
    unfolding ns using zipped_nth by blast
  have st: "filter is_storyteller (players g') = filter is_storyteller (players g)"
    by (simp add: g' assign_walk_storytellers)
  have rest: "started g' \<and> player_count g' = Some n \<and> n = int (length (non_storytellers g)) \<and>
         game_id g' = game_id g \<and> edition g' = edition g"
    using n by (simp add: g')
  show "\<exists>g d selected rs1.
         games s gid = Some g \<and>
         get_role_distribution s (edition g) n = Inr d \<and>
         select_random_characters s (edition g) d rs = Inr (selected, rs1) \<and>
         mset (shuffle selected rs1) = mset selected \<and>
         length (non_storytellers g') = length (non_storytellers g) \<and>
         (\<forall>i < length (non_storytellers g).
            non_storytellers g' ! i =
              (if i < length (shuffle selected rs1)
               then (non_storytellers g ! i)\<lparr>character := Some (shuffle selected rs1 ! i)\<rparr>
               else non_storytellers g ! i)) \<and>
         filter is_storyteller (players g') = filter is_storyteller (players g) \<and>
         started g' \<and> player_count g' = Some n \<and> n = int (length (non_storytellers g)) \<and>
         game_id g' = game_id g \<and> edition g' = edition g \<and>
         s' = s\<lparr>games := (games s)(gid \<mapsto> g')\<rparr>"
    using g d sel shuffle_mset [of selected rs1] len each st rest s' by blast
next
  fix g d selected rs1
  assume a: "games s gid = Some g \<and> \<not> started g \<and> int (length (non_storytellers g)) = n \<and>
      get_role_distribution s (edition g) n = Inr d \<and>
      select_random_characters s (edition g) d rs = Inr (selected, rs1) \<and>
      length selected < length (non_storytellers g)"
  let ?g' = "g\<lparr>players := assign_walk (players g) (shuffle selected rs1),
                started := True, player_count := Some n\<rparr>"
  have run: "start_game s gid n rs = (Inr ?g', s\<lparr>games := (games s)(gid \<mapsto> ?g')\<rparr>)"
    using a by (intro start_game_succeeds) auto
  have "non_storytellers ?g' ! i = non_storytellers g ! i"
    if "length selected \<le> i \<and> i < length (non_storytellers g)" for i
    unfolding started_non_storytellers using that zipped_nth [of i "non_storytellers g" "shuffle selected rs1"]
    by (simp add: shuffle_length)
  with run show "\<exists>g' s'. start_game s gid n rs = (Inr g', s') \<and>
           (\<forall>i. length selected \<le> i \<and> i < length (non_storytellers g) \<longrightarrow>
              non_storytellers g' ! i = non_storytellers g ! i)"
    by blast
qed

lemma demo_started_non_storytellers3:
  "non_storytellers demo_started3_game = [bob\<lparr>character := Some imp\<rparr>, carol\<lparr>character := Some chef\<rparr>, dave]"
  by (simp add: non_storytellers_def demo_started3_game_def alice_def bob_def carol_def dave_def)

lemma demo_lobby3_non_storytellers: "non_storytellers demo_lobby3_game = [bob, carol, dave]"
  by (simp add: non_storytellers_def demo_lobby3_game_def alice_def bob_def carol_def dave_def)

theorem start_game_assigns_witness:
  "start_game demo_lobby3 ''g1'' 3 [0, 0, 1] =
     (Inr demo_started3_game, demo_lobby3\<lparr>games := [''g1'' \<mapsto> demo_started3_game]\<rparr>) \<and>
   shuffle [chef, imp] [1] = [imp, chef] \<and>
   non_storytellers demo_started3_game ! 0 = bob\<lparr>character := Some imp\<rparr> \<and>
   non_storytellers demo_started3_game ! 1 = carol\<lparr>character := Some chef\<rparr> \<and>
   non_storytellers demo_started3_game ! 2 = dave \<and> character dave = None \<and>
   started demo_started3_game \<and> player_count demo_started3_game = Some 3 \<and>
   (\<exists>g' s'. start_game demo_lobby3 ''g1'' 3 [0, 0, 1] = (Inr g', s') \<and>
      non_storytellers g' ! 2 = non_storytellers demo_lobby3_game ! 2)"
proof -
  note inst = start_game_assigns [of demo_lobby3 "''g1''" 3 "[0, 0, 1]"]
  from inst demo_start3 obtain g d selected rs1 where
    g: "games demo_lobby3 ''g1'' = Some g"
    and d: "get_role_distribution demo_lobby3 (edition g) 3 = Inr d"
    and sel: "select_random_characters demo_lobby3 (edition g) d [0, 0, 1] = Inr (selected, rs1)"
    and each: "\<forall>i < length (non_storytellers g).
            non_storytellers demo_started3_game ! i =
              (if i < length (shuffle selected rs1)
               then (non_storytellers g ! i)\<lparr>character := Some (shuffle selected rs1 ! i)\<rparr>
               else non_storytellers g ! i)"
    and fl: "started demo_started3_game \<and> player_count demo_started3_game = Some 3"
    by blast
  from g have g_eq: "g = demo_lobby3_game" by (simp add: demo_lobby3_games)
  have ed: "edition g = ''demo''" by (simp add: g_eq demo_lobby3_game_def)
  from d have d_eq: "d = [(TOWNSFOLK, 1), (DEMON, 4)]" by (simp add: ed demo_distribution3)
  from sel have s_eq: "selected = [chef, imp]" "rs1 = [1]"
    unfolding ed d_eq demo_select3 by simp_all
  from each have e: "\<forall>i < 3. non_storytellers demo_started3_game ! i =
              (if i < 2 then ([bob, carol, dave] ! i)\<lparr>character := Some ([imp, chef] ! i)\<rparr>
               else [bob, carol, dave] ! i)"
    unfolding g_eq demo_lobby3_non_storytellers s_eq demo_shuffle3 by simp
  have "non_storytellers demo_started3_game ! 0 = bob\<lparr>character := Some imp\<rparr>"
    and "non_storytellers demo_started3_game ! 1 = carol\<lparr>character := Some chef\<rparr>"
    and "non_storytellers demo_started3_game ! 2 = dave"
    using e by auto
  with fl demo_start3 demo_shuffle3 have first:
    "start_game demo_lobby3 ''g1'' 3 [0, 0, 1] =
       (Inr demo_started3_game, demo_lobby3\<lparr>games := [''g1'' \<mapsto> demo_started3_game]\<rparr>) \<and>
     shuffle [chef, imp] [1] = [imp, chef] \<and>
     non_storytellers demo_started3_game ! 0 = bob\<lparr>character := Some imp\<rparr> \<and>
     non_storytellers demo_started3_game ! 1 = carol\<lparr>character := Some chef\<rparr> \<and>
     non_storytellers demo_started3_game ! 2 = dave \<and> character dave = None \<and>
     started demo_started3_game \<and> player_count demo_started3_game = Some 3"
    by (simp add: dave_def)
  have short: "games demo_lobby3 ''g1'' = Some demo_lobby3_game \<and> \<not> started demo_lobby3_game \<and>
      int (length (non_storytellers demo_lobby3_game)) = 3 \<and>
      get_role_distribution demo_lobby3 (edition demo_lobby3_game) 3 = Inr [(TOWNSFOLK, 1), (DEMON, 4)] \<and>
      select_random_characters demo_lobby3 (edition demo_lobby3_game) [(TOWNSFOLK, 1), (DEMON, 4)] [0, 0, 1]
        = Inr ([chef, imp], [1]) \<and>
      length [chef, imp] < length (non_storytellers demo_lobby3_game)"
    using demo_lobby3_games demo_distribution3 demo_select3 ed [unfolded g_eq]
    by (simp add: demo_lobby3_non_storytellers) (simp add: demo_lobby3_game_def)
  from inst short obtain g2 s2 where
    "start_game demo_lobby3 ''g1'' 3 [0, 0, 1] = (Inr g2, s2)"
    "\<forall>i. length [chef, imp] \<le> i \<and> i < length (non_storytellers demo_lobby3_game) \<longrightarrow>
       non_storytellers g2 ! i = non_storytellers demo_lobby3_game ! i"
    by blast
  then have "\<exists>g' s'. start_game demo_lobby3 ''g1'' 3 [0, 0, 1] = (Inr g', s') \<and>
      non_storytellers g' ! 2 = non_storytellers demo_lobby3_game ! 2"
    by (auto simp: demo_lobby3_non_storytellers)
  with first show ?thesis by blast
qed

section \<open>What every run of the service preserves\<close>

lemma game_ok_created:
  "game_ok \<lparr>game_id = gid, edition = ed,
            players = [\<lparr>player_id = pid, player_name = name, character = None, is_storyteller = True\<rparr>],
            started = False, player_count = None\<rparr>"
  by (simp add: game_ok_def)

lemma game_ok_joined:
  assumes "game_ok g" and "\<not> started g"
  shows "game_ok (g\<lparr>players := players g @
            [\<lparr>player_id = pid, player_name = name, character = None, is_storyteller = False\<rparr>]\<rparr>)"
  using assms by (auto simp: game_ok_def split: list.splits)

lemma game_ok_started:
  assumes "game_ok g"
  shows "game_ok (g\<lparr>players := assign_walk (players g) cs, started := True, player_count := Some n\<rparr>)"
  using assms by (auto simp: game_ok_def assign_walk_keeps_players split: list.splits)

lemma create_game_ok: "service_ok s \<Longrightarrow> service_ok (snd (create_game s ed name gid pid))"
  by (auto simp: service_ok_def create_game_def Let_def game_ok_created)

lemma join_game_ok: "service_ok s \<Longrightarrow> service_ok (snd (join_game s gid name pid))"
  by (auto simp: service_ok_def join_game_def Let_def game_ok_joined split: option.splits)

lemma start_game_ok:
  assumes "service_ok s"
  shows "service_ok (snd (start_game s gid n rs))"
proof (cases "fst (start_game s gid n rs)")
  case (Inl e)
  then have "snd (start_game s gid n rs) = s"
    by (auto simp: start_game_def Let_def split: option.splits if_splits sum.splits prod.splits)
  with assms show ?thesis by simp
next
  case (Inr g')
  then have "start_game s gid n rs = (Inr g', snd (start_game s gid n rs))"
    by (metis prod.collapse)
  from start_game_success [OF this] obtain g cs where
    g: "games s gid = Some g"
    and s': "snd (start_game s gid n rs) =
      s\<lparr>games := (games s)(gid \<mapsto> g\<lparr>players := assign_walk (players g) cs,
                                         started := True, player_count := Some n\<rparr>)\<rparr>"
    by auto
  from assms g have "game_ok g" by (auto simp: service_ok_def)
  then have "game_ok (g\<lparr>players := assign_walk (players g) cs, started := True, player_count := Some n\<rparr>)"
    by (rule game_ok_started)
  with assms show ?thesis
    unfolding s' by (auto simp: service_ok_def split: if_splits)
qed

lemma apply_call_ok: "service_ok s \<Longrightarrow> service_ok (apply_call s x)"
  by (cases x) (simp_all add: create_game_ok join_game_ok start_game_ok)

lemma apply_call_editions: "editions_data (apply_call s x) = editions_data s"
  by (cases x)
     (auto simp: create_game_def join_game_def start_game_def Let_def
       split: option.splits if_splits sum.splits prod.splits)

lemma run_ok: "service_ok (run catalog calls)"
proof (induction calls rule: rev_induct)
  case Nil
  then show ?case by (simp add: run_def init_service_def service_ok_def)
next
  case (snoc x calls)
  then show ?case by (simp add: run_snoc apply_call_ok)
qed

lemma run_editions: "editions_data (run catalog calls) = catalog"
proof (induction calls rule: rev_induct)
  case Nil
  then show ?case by (simp add: run_def init_service_def)
next
  case (snoc x calls)
  then show ?case by (simp add: run_snoc apply_call_editions)
qed

lemma run_game_ok: "games (run catalog calls) gid = Some g \<Longrightarrow> game_ok g"
  using run_ok [of catalog calls] by (auto simp: service_ok_def)

lemma game_ok_storyteller:
  assumes "game_ok g" and "p \<in> set (players g)" and "is_storyteller p"
  shows "character p = None \<and> role_loop (players g) (player_id p) = None"
proof -
  from assms(1) obtain h rest where ps: "players g = h # rest"
    and h: "is_storyteller h" "character h = None"
    and rest: "list_all (\<lambda>p. \<not> is_storyteller p) rest"
    by (auto simp: game_ok_def split: list.splits)
  from assms(2,3) ps rest have "p = h" by (auto simp: list_all_iff)
  with ps h show ?thesis by simp
qed

section \<open>The storyteller has no role\<close>

text \<open>
  Claim C10. In the service reached from its start by any sequence of
  \<open>create_game\<close>, \<open>join_game\<close> and \<open>start_game\<close> calls, successful or failed, every
  storyteller of every game has no character, and \<open>get_player_role\<close> with the
  storyteller's id returns \<open>None\<close>, whether the game is started or not.
\<close>

theorem storyteller_has_no_character:
  "\<forall>g p. games (run catalog calls) gid = Some g \<and> p \<in> set (players g) \<and> is_storyteller p \<longrightarrow>
     character p = None \<and> get_player_role (run catalog calls) gid (player_id p) = None"
  using run_game_ok [of catalog calls gid] game_ok_storyteller
  by (auto simp: get_player_role_def)

theorem storyteller_has_no_character_witness:
  "games demo_started ''g1'' = Some demo_started_game \<and> started demo_started_game \<and>
   alice \<in> set (players demo_started_game) \<and> is_storyteller alice \<and>
   character alice = None \<and> get_player_role demo_started ''g1'' ''p0'' = None"
proof -
  have h: "games demo_started ''g1'' = Some demo_started_game \<and> started demo_started_game \<and>
      alice \<in> set (players demo_started_game) \<and> is_storyteller alice \<and> player_id alice = ''p0''"
    by (simp add: demo_started_games demo_started_game_def alice_def)
  with storyteller_has_no_character
         [of demo_catalog "demo_lobby_calls @ [StartGame ''g1'' 2 [1, 0, 1]]" "''g1''"]
  show ?thesis
    unfolding demo_started_def [symmetric] by metis
qed

section \<open>Selecting characters\<close>

lemma random_sample_min:
  assumes "0 \<le> cnt"
  shows "\<exists>cs rs'. random_sample available (min cnt (int (length available))) rs = Inr (cs, rs') \<and>
           mset cs \<subseteq># mset available \<and> int (length cs) = min cnt (int (length available))"
proof -
  let ?k = "nat (min cnt (int (length available)))"
  have k: "?k \<le> length available" by simp
  have "random_sample available (min cnt (int (length available))) rs = Inr (pick ?k available rs)"
    using assms by (simp add: random_sample_def)
  moreover have "mset (fst (pick ?k available rs)) \<subseteq># mset available" by (rule pick_mset)
  moreover have "int (length (fst (pick ?k available rs))) = min cnt (int (length available))"
    using assms pick_length [OF k, of rs] by simp
  ultimately show ?thesis by (metis prod.collapse)
qed

lemma select_loop_buckets:
  assumes "\<forall>(t, cnt) \<in> set d. cd t \<noteq> None \<and> 0 \<le> cnt"
  shows "\<exists>chosen rs'.
           select_loop cd d rs =
             Inr (concat (map (\<lambda>((t, cnt), cs). map (mk_character t) cs) (zip d chosen)), rs') \<and>
           list_all2 (\<lambda>(t, cnt) cs.
               \<exists>available. cd t = Some available \<and> mset cs \<subseteq># mset available \<and>
                 int (length cs) = min cnt (int (length available)))
             d chosen"
  using assms
proof (induction d arbitrary: rs)
  case Nil
  then show ?case by simp
next
  case (Cons x d)
  obtain t cnt where x: "x = (t, cnt)" by (cases x)
  from Cons.prems x obtain available where av: "cd t = Some available" and cnt: "0 \<le> cnt"
    and rest: "\<forall>(t, cnt) \<in> set d. cd t \<noteq> None \<and> 0 \<le> cnt"
    by auto
  from random_sample_min [OF cnt, of available rs] obtain cs rs1 where
    sample: "random_sample available (min cnt (int (length available))) rs = Inr (cs, rs1)"
    and sub: "mset cs \<subseteq># mset available"
    and len: "int (length cs) = min cnt (int (length available))"
    by blast
  from Cons.IH [OF rest, of rs1] obtain chosen rs2 where
    loop: "select_loop cd d rs1 =
             Inr (concat (map (\<lambda>((t, cnt), cs). map (mk_character t) cs) (zip d chosen)), rs2)"
    and all: "list_all2 (\<lambda>(t, cnt) cs.
               \<exists>available. cd t = Some available \<and> mset cs \<subseteq># mset available \<and>
                 int (length cs) = min cnt (int (length available)))
             d chosen"
    by blast
  have "select_loop cd (x # d) rs =
          Inr (concat (map (\<lambda>((t, cnt), cs). map (mk_character t) cs) (zip (x # d) (cs # chosen))), rs2)"
    by (simp add: x av sample loop)
  moreover have "list_all2 (\<lambda>(t, cnt) cs.
               \<exists>available. cd t = Some available \<and> mset cs \<subseteq># mset available \<and>
                 int (length cs) = min cnt (int (length available)))
             (x # d) (cs # chosen)"
    using all sub len by (simp add: x av)
  ultimately show ?case by blast
qed

lemma mk_character_fields:
  "mk_character t =
     (\<lambda>c. \<lparr>char_id = entry_id c, char_name = entry_name c, ability = entry_ability c,
            first_night = entry_first_night c, other_nights = entry_other_nights c,
            char_type = Some t\<rparr>)"
  by (rule ext) (simp add: mk_character_def)

text \<open>
  Claim C5, as amended. For a known edition and a distribution in which every type has
  a bucket in the edition and no count is negative, \<open>_select_random_characters\<close> returns
  without error. Its result is the concatenation, in the order of the distribution, of
  one block per entry \<open>(t, cnt)\<close>. The block holds one character for each entry of a
  selection \<open>cs\<close> from the bucket \<open>available\<close> of \<open>t\<close>: the character has the entry's id,
  name, ability and two night ranks, and its type is \<open>t\<close>. The selection takes no entry
  more often than the bucket holds it (drawn without replacement) and its length is the
  minimum of \<open>cnt\<close> and the size of the bucket, so a count above the size of the bucket
  yields the whole bucket and no error.
\<close>

theorem select_random_characters_min:
  assumes "editions_data s ed = Some e"
    and "\<forall>(t, cnt) \<in> set d. characters e t \<noteq> None \<and> 0 \<le> cnt"
  shows "\<exists>chosen rs'.
           select_random_characters s ed d rs =
             Inr (concat (map (\<lambda>((t, cnt), cs).
                    map (\<lambda>c. \<lparr>char_id = entry_id c, char_name = entry_name c,
                                ability = entry_ability c, first_night = entry_first_night c,
                                other_nights = entry_other_nights c, char_type = Some t\<rparr>) cs)
                    (zip d chosen)), rs') \<and>
           list_all2 (\<lambda>(t, cnt) cs.
               \<exists>available. characters e t = Some available \<and> mset cs \<subseteq># mset available \<and>
                 int (length cs) = min cnt (int (length available)))
             d chosen"
  using assms(1) select_loop_buckets [OF assms(2), of rs]
  by (simp add: select_random_characters_def mk_character_fields)

lemma submset_singleton:
  assumes "mset cs \<subseteq># mset available" and "length cs = 1"
  shows "\<exists>c \<in> set available. cs = [c]"
proof -
  from assms(2) obtain c where cs: "cs = [c]"
    by (cases cs) auto
  with assms(1) have "c \<in> set available"
    by (metis list.set_intros(1) mset_subset_eqD set_mset_mset)
  with cs show ?thesis by blast
qed

theorem select_random_characters_min_witness:
  "editions_data demo_lobby3 ''demo'' = Some demo_edition \<and>
   characters demo_edition TOWNSFOLK = Some [chef_entry, monk_entry] \<and>
   characters demo_edition DEMON = Some [imp_entry] \<and>
   (\<exists>c rs'.
      select_random_characters demo_lobby3 ''demo'' [(TOWNSFOLK, 1), (DEMON, 4)] [0, 0, 1] =
        Inr ([c, \<lparr>char_id = ''imp'', char_name = ''Imp'', ability = ''kills'',
                   first_night = 1, other_nights = 5, char_type = Some DEMON\<rparr>], rs') \<and>
      (c = \<lparr>char_id = ''chef'', char_name = ''Chef'', ability = ''pairs'',
             first_night = 2, other_nights = 0, char_type = Some TOWNSFOLK\<rparr> \<or>
       c = \<lparr>char_id = ''monk'', char_name = ''Monk'', ability = ''protects'',
             first_night = 0, other_nights = 3, char_type = Some TOWNSFOLK\<rparr>))"
proof -
  have e: "editions_data demo_lobby3 ''demo'' = Some demo_edition"
    by (simp add: demo_lobby3_editions demo_catalog_def)
  have ok: "\<forall>(t, cnt) \<in> set [(TOWNSFOLK, 1), (DEMON, 4)].
              characters demo_edition t \<noteq> None \<and> (0::int) \<le> cnt"
    by (simp add: demo_edition_def)
  from select_random_characters_min [OF e ok, of "[0, 0, 1]"] obtain chosen rs' where
    sel: "select_random_characters demo_lobby3 ''demo'' [(TOWNSFOLK, 1), (DEMON, 4)] [0, 0, 1] =
       Inr (concat (map (\<lambda>((t, cnt), cs).
                    map (\<lambda>c. \<lparr>char_id = entry_id c, char_name = entry_name c,
                                ability = entry_ability c, first_night = entry_first_night c,
                                other_nights = entry_other_nights c, char_type = Some t\<rparr>) cs)
                     (zip [(TOWNSFOLK, 1), (DEMON, 4::int)] chosen)), rs')"
    and all: "list_all2 (\<lambda>(t, cnt) cs.
               \<exists>available. characters demo_edition t = Some available \<and>
                 mset cs \<subseteq># mset available \<and>
                 int (length cs) = min cnt (int (length available)))
             [(TOWNSFOLK, 1), (DEMON, 4)] chosen"
    by blast
  from all obtain c1 c2 where chosen: "chosen = [c1, c2]"
    and c1: "mset c1 \<subseteq># mset [chef_entry, monk_entry]" "length c1 = 1"
    and c2: "mset c2 \<subseteq># mset [imp_entry]" "length c2 = 1"
    by (auto simp: list_all2_Cons1 demo_edition_def)
  from submset_singleton [OF c1] obtain x where x: "c1 = [x]" "x = chef_entry \<or> x = monk_entry"
    by auto
  from submset_singleton [OF c2] have y: "c2 = [imp_entry]" by auto
  let ?c = "\<lparr>char_id = entry_id x, char_name = entry_name x, ability = entry_ability x,
             first_night = entry_first_night x, other_nights = entry_other_nights x,
             char_type = Some TOWNSFOLK\<rparr>"
  have "select_random_characters demo_lobby3 ''demo'' [(TOWNSFOLK, 1), (DEMON, 4)] [0, 0, 1] =
        Inr ([?c, \<lparr>char_id = ''imp'', char_name = ''Imp'', ability = ''kills'',
                   first_night = 1, other_nights = 5, char_type = Some DEMON\<rparr>], rs')"
    using sel unfolding chosen x y by (simp add: imp_entry_def)
  moreover have "?c = \<lparr>char_id = ''chef'', char_name = ''Chef'', ability = ''pairs'',
             first_night = 2, other_nights = 0, char_type = Some TOWNSFOLK\<rparr> \<or>
       ?c = \<lparr>char_id = ''monk'', char_name = ''Monk'', ability = ''protects'',
             first_night = 0, other_nights = 3, char_type = Some TOWNSFOLK\<rparr>"
    using x(2) by (auto simp: chef_entry_def monk_entry_def)
  moreover have "characters demo_edition TOWNSFOLK = Some [chef_entry, monk_entry]"
    and "characters demo_edition DEMON = Some [imp_entry]"
    by (simp_all add: demo_edition_def)
  ultimately show ?thesis using e by blast
qed

text \<open>
  Where the claim as first stated fails: the demo edition has no outsider bucket, and a
  distribution that asks for an outsider ends in the failing lookup
  \<open>characters_data[char_type]\<close>; a distribution with a negative count ends in the
  \<open>ValueError\<close> of \<open>random.sample\<close>.
\<close>

theorem select_random_characters_raises:
  "editions_data demo_lobby ''demo'' = Some demo_edition \<and>
   select_random_characters demo_lobby ''demo'' [(OUTSIDER, 1)] [] = Inl (BucketKeyError OUTSIDER) \<and>
   editions_data twin_lobby ''twins'' = Some twin_edition \<and>
   select_random_characters twin_lobby ''twins'' [(TOWNSFOLK, - 1)] [] = Inl SampleError"
  by (simp add: select_random_characters_def demo_lobby_editions demo_catalog_def demo_edition_def
      twin_lobby_editions twin_catalog_def twin_edition_def random_sample_def)

section \<open>Assigned characters are distinct\<close>

lemma submset_distinct:
  assumes "mset xs \<subseteq># mset ys" and "distinct ys"
  shows "distinct xs"
  unfolding distinct_count_atmost_1
proof
  fix a
  have "count (mset xs) a \<le> count (mset ys) a"
    using assms(1) by (rule mset_subset_eq_count)
  also have "\<dots> \<le> 1"
    using assms(2) by (simp add: distinct_count_atmost_1)
  finally have le: "count (mset xs) a \<le> 1" .
  show "count (mset xs) a = (if a \<in> set xs then 1 else 0)"
  proof (cases "a \<in> set xs")
    case True
    then have "0 < count (mset xs) a" by simp
    with le have "count (mset xs) a = 1" by linarith
    with True show ?thesis by simp
  next
    case False
    then show ?thesis by (simp add: count_eq_zero_iff)
  qed
qed

lemma submset_ids:
  assumes "mset cs \<subseteq># mset es"
  shows "mset (map entry_id cs) \<subseteq># mset (map entry_id es)"
  using image_mset_subseteq_mono [OF assms, of entry_id] by simp

lemma char_id_mk_character: "map char_id (map (mk_character t) cs) = map entry_id cs"
  by (simp add: mk_character_def o_def)

lemma random_sample_submset:
  "random_sample available k rs = Inr (cs, rs') \<Longrightarrow> mset cs \<subseteq># mset available"
  by (auto simp: random_sample_def split: if_splits) (metis fst_conv pick_mset)

lemma select_loop_distinct:
  assumes "select_loop cd d rs = Inr (selected, rs')"
    and "distinct (map fst d)"
    and "\<And>t. distinct (map entry_id (case cd t of None \<Rightarrow> [] | Some es \<Rightarrow> es))"
    and "\<And>t u. t \<noteq> u \<Longrightarrow>
           set (map entry_id (case cd t of None \<Rightarrow> [] | Some es \<Rightarrow> es)) \<inter>
           set (map entry_id (case cd u of None \<Rightarrow> [] | Some es \<Rightarrow> es)) = {}"
  shows "distinct (map char_id selected) \<and>
         set (map char_id selected) \<subseteq>
           (\<Union>t \<in> set (map fst d). set (map entry_id (case cd t of None \<Rightarrow> [] | Some es \<Rightarrow> es)))"
  using assms(1,2)
proof (induction d arbitrary: rs selected)
  case Nil
  then show ?case by simp
next
  case (Cons x d)
  obtain t cnt where x: "x = (t, cnt)" by (cases x)
  from Cons.prems(1) x obtain available cs rs1 sel where
    av: "cd t = Some available"
    and sample: "random_sample available (min cnt (int (length available))) rs = Inr (cs, rs1)"
    and loop: "select_loop cd d rs1 = Inr (sel, rs')"
    and selected: "selected = map (mk_character t) cs @ sel"
    by (auto split: option.splits sum.splits prod.splits)
  from Cons.prems(2) x have t: "t \<notin> set (map fst d)" and dd: "distinct (map fst d)" by auto
  from Cons.IH [OF loop dd] have
    ih1: "distinct (map char_id sel)"
    and ih2: "set (map char_id sel) \<subseteq>
           (\<Union>t \<in> set (map fst d). set (map entry_id (case cd t of None \<Rightarrow> [] | Some es \<Rightarrow> es)))"
    by blast+
  have sub: "mset (map entry_id cs) \<subseteq># mset (map entry_id available)"
    using random_sample_submset [OF sample] by (rule submset_ids)
  have dav: "distinct (map entry_id available)" using assms(3) [of t] by (simp add: av)
  have d1: "distinct (map entry_id cs)" using sub dav by (rule submset_distinct)
  have s1: "set (map entry_id cs) \<subseteq> set (map entry_id available)"
    using set_mset_mono [OF sub] by simp
  have disj: "set (map entry_id cs) \<inter> set (map char_id sel) = {}"
  proof -
    have "set (map entry_id available) \<inter>
            set (map entry_id (case cd u of None \<Rightarrow> [] | Some es \<Rightarrow> es)) = {}"
      if "u \<in> set (map fst d)" for u
      using assms(4) [of t u] that t by (auto simp: av)
    with ih2 s1 show ?thesis by blast
  qed
  have "distinct (map char_id selected)"
    using d1 ih1 disj by (simp add: selected char_id_mk_character del: map_map)
  moreover have "set (map char_id selected) \<subseteq>
           (\<Union>t \<in> set (map fst (x # d)). set (map entry_id (case cd t of None \<Rightarrow> [] | Some es \<Rightarrow> es)))"
    using s1 ih2 unfolding selected map_append char_id_mk_character set_append
    by (auto simp: x av)
  ultimately show ?case by blast
qed

lemma catalog_ids_distinct:
  assumes "distinct (catalog_ids e)"
  shows "distinct (map entry_id (bucket e t))"
    and "t \<noteq> u \<Longrightarrow> set (map entry_id (bucket e t)) \<inter> set (map entry_id (bucket e u)) = {}"
proof -
  show "distinct (map entry_id (bucket e t))"
    using assms by (cases t) (simp_all add: catalog_ids_def)
  show "set (map entry_id (bucket e t)) \<inter> set (map entry_id (bucket e u)) = {}" if "t \<noteq> u"
    using assms that by (cases t; cases u) (auto simp: catalog_ids_def)
qed

lemma distinct_shuffled_ids:
  assumes "distinct (map char_id selected)"
  shows "distinct (map char_id (take k (shuffle selected rs)))"
proof -
  have "mset (map char_id (shuffle selected rs)) = mset (map char_id selected)"
    by (simp add: shuffle_mset)
  then have "distinct (map char_id (shuffle selected rs))"
    using assms by (metis mset_eq_imp_distinct_iff)
  then show ?thesis by (simp add: take_map [symmetric])
qed

lemma started_players:
  assumes "game_ok g" and "\<not> started g"
  shows "\<exists>h rest. players g = h # rest \<and> is_storyteller h \<and> character h = None \<and>
           list_all (\<lambda>p. \<not> is_storyteller p) rest \<and> list_all (\<lambda>p. character p = None) rest \<and>
           assign_walk (players g) cs = h # assign_walk rest cs"
  using assms by (auto simp: game_ok_def split: list.splits)

lemma map_filter_member:
  "x \<in> set xs \<Longrightarrow> g x = Some b \<Longrightarrow> b \<in> set (List.map_filter g xs)"
  by (induction xs) (auto split: option.splits)

lemma distinct_map_filter_nth:
  assumes "distinct (map f (List.map_filter g xs))"
    and "i < j" and "j < length xs" and "g (xs ! i) = Some a" and "g (xs ! j) = Some b"
  shows "f a \<noteq> f b"
  using assms
proof (induction xs arbitrary: i j)
  case Nil
  then show ?case by simp
next
  case (Cons x xs)
  from Cons.prems(2) obtain j' where j: "j = Suc j'" by (cases j) auto
  have tail: "distinct (map f (List.map_filter g xs))"
    using Cons.prems(1) by (cases "g x") simp_all
  show ?case
  proof (cases i)
    case 0
    have "b \<in> set (List.map_filter g xs)"
      using Cons.prems(3,5) j by (intro map_filter_member [of "xs ! j'"]) auto
    moreover have "List.map_filter g (x # xs) = a # List.map_filter g xs"
      using Cons.prems(4) 0 by simp
    ultimately show ?thesis using Cons.prems(1) by auto
  next
    case (Suc i')
    show ?thesis
      using Cons.IH [OF tail, of i' j'] Cons.prems(2-5) j Suc by simp
  qed
qed

text \<open>
  Claim C2, as amended. Let \<open>start_game\<close> succeed on a service reached by a run, and
  let \<open>e\<close> be the game's edition and \<open>d\<close> its distribution for the player count. Then
  \<open>n\<close> is the number of players who are not the storyteller, and the number of players
  with a character is the minimum of \<open>n\<close> and the number of selected characters (so \<open>n\<close>,
  or fewer when fewer were selected). If moreover the identifiers in the catalog of \<open>e\<close>
  are pairwise different and \<open>d\<close> names each bucket once, then no two players of the game
  hold characters with the same identifier.
\<close>

theorem assigned_characters_unique:
  assumes "start_game (run catalog calls) gid n rs = (Inr g', s')"
    and "catalog (edition g') = Some e" and "setup_table e n = Some d"
  shows "n = int (length (non_storytellers g')) \<and>
         (\<exists>selected rs1.
            select_random_characters (run catalog calls) (edition g') d rs = Inr (selected, rs1) \<and>
            length (filter (\<lambda>p. character p \<noteq> None) (players g')) = min (nat n) (length selected)) \<and>
         (distinct (catalog_ids e) \<and> distinct (map fst d) \<longrightarrow>
            (\<forall>i j c c'. i < j \<and> j < length (players g') \<and>
               character (players g' ! i) = Some c \<and> character (players g' ! j) = Some c' \<longrightarrow>
               char_id c \<noteq> char_id c'))"
proof -
  let ?s = "run catalog calls"
  from start_game_success [OF assms(1)] obtain g d0 selected rs1 where
    g: "games ?s gid = Some g" and ns: "\<not> started g"
    and n: "int (length (non_storytellers g)) = n"
    and d0: "get_role_distribution ?s (edition g) n = Inr d0"
    and sel0: "select_random_characters ?s (edition g) d0 rs = Inr (selected, rs1)"
    and g': "g' = g\<lparr>players := assign_walk (players g) (shuffle selected rs1),
                  started := True, player_count := Some n\<rparr>"
    by blast
  have ed: "edition g' = edition g" by (simp add: g')
  have cat: "editions_data ?s (edition g) = Some e"
    using assms(2) by (simp add: run_editions ed)
  from d0 have d_eq: "d0 = d"
    by (simp add: get_role_distribution_def cat assms(3))
  have sel: "select_random_characters ?s (edition g') d rs = Inr (selected, rs1)"
    using sel0 by (simp add: ed d_eq)
  then have loop: "select_loop (characters e) d rs = Inr (selected, rs1)"
    by (simp add: select_random_characters_def ed cat)
  from started_players [OF run_game_ok [OF g] ns, of "shuffle selected rs1"]
  obtain h rest where ps: "players g = h # rest"
    and h: "is_storyteller h" "character h = None"
    and rest: "list_all (\<lambda>p. \<not> is_storyteller p) rest" "list_all (\<lambda>p. character p = None) rest"
    and walk: "assign_walk (players g) (shuffle selected rs1) = h # assign_walk rest (shuffle selected rs1)"
    by blast
  have len_rest: "length (non_storytellers g) = length rest"
    using rest(1) h(1) by (simp add: non_storytellers_def ps list_all_iff)
  have count: "length (non_storytellers g') = length (non_storytellers g)"
    unfolding g' started_non_storytellers by (rule zipped_length)
  have a: "n = int (length (non_storytellers g'))"
    using n count by simp
  have "length (filter (\<lambda>p. character p \<noteq> None) (players g')) =
          min (length rest) (length (shuffle selected rs1))"
    using h(2) assign_walk_with_character [OF rest, of "shuffle selected rs1"]
    by (simp add: g' walk)
  then have b: "length (filter (\<lambda>p. character p \<noteq> None) (players g')) = min (nat n) (length selected)"
    using n len_rest by (simp add: shuffle_length)
  have chars: "List.map_filter character (players g') = take (length rest) (shuffle selected rs1)"
    using h(2) assign_walk_characters [OF rest, of "shuffle selected rs1"]
    by (simp add: g' walk)
  have c: "char_id c \<noteq> char_id c'"
    if ok: "distinct (catalog_ids e) \<and> distinct (map fst d)"
      and ij: "i < j \<and> j < length (players g') \<and>
               character (players g' ! i) = Some c \<and> character (players g' ! j) = Some c'"
    for i j c c'
  proof -
    from ok have "distinct (map char_id selected)"
      using select_loop_distinct [OF loop] catalog_ids_distinct [of e]
      by (simp add: bucket_def)
    then have "distinct (map char_id (List.map_filter character (players g')))"
      unfolding chars by (rule distinct_shuffled_ids)
    from distinct_map_filter_nth [OF this] ij show ?thesis by blast
  qed
  from a b c sel show ?thesis by blast
qed

lemma demo_catalog_ids: "catalog_ids demo_edition = [''chef'', ''monk'', ''imp'']"
  by (simp add: catalog_ids_def bucket_def demo_edition_def demo_values)

theorem assigned_characters_unique_witness:
  "start_game (run demo_catalog demo_lobby_calls) ''g1'' 2 [1, 0, 1] =
     (Inr demo_started_game, demo_lobby\<lparr>games := [''g1'' \<mapsto> demo_started_game]\<rparr>) \<and>
   demo_catalog (edition demo_started_game) = Some demo_edition \<and>
   setup_table demo_edition 2 = Some [(TOWNSFOLK, 1), (DEMON, 1)] \<and>
   distinct (catalog_ids demo_edition) \<and>
   distinct (map fst [(TOWNSFOLK, 1::int), (DEMON, 1)]) \<and>
   length (non_storytellers demo_started_game) = 2 \<and>
   length (filter (\<lambda>p. character p \<noteq> None) (players demo_started_game)) = 2 \<and>
   character (players demo_started_game ! 1) = Some imp \<and>
   character (players demo_started_game ! 2) = Some monk \<and>
   char_id imp \<noteq> char_id monk"
proof -
  have h1: "start_game (run demo_catalog demo_lobby_calls) ''g1'' 2 [1, 0, 1] =
     (Inr demo_started_game, demo_lobby\<lparr>games := [''g1'' \<mapsto> demo_started_game]\<rparr>)"
    unfolding demo_lobby_def [symmetric] by (rule demo_start)
  have h2: "demo_catalog (edition demo_started_game) = Some demo_edition"
    by (simp add: demo_catalog_def demo_started_game_def)
  have h3: "setup_table demo_edition 2 = Some [(TOWNSFOLK, 1), (DEMON, 1)]"
    by (simp add: demo_edition_def)
  have h4: "distinct (catalog_ids demo_edition) \<and> distinct (map fst [(TOWNSFOLK, 1::int), (DEMON, 1)])"
    by (simp add: demo_catalog_ids)
  have h5: "(1::nat) < 2 \<and> 2 < length (players demo_started_game) \<and>
      character (players demo_started_game ! 1) = Some imp \<and>
      character (players demo_started_game ! 2) = Some monk"
    by (simp add: demo_started_game_def)
  note concl = assigned_characters_unique [OF h1 h2 h3]
  from concl obtain selected rs1 where
    sel: "select_random_characters (run demo_catalog demo_lobby_calls) (edition demo_started_game)
            [(TOWNSFOLK, 1), (DEMON, 1)] [1, 0, 1] = Inr (selected, rs1)"
    and len: "length (filter (\<lambda>p. character p \<noteq> None) (players demo_started_game)) =
                min (nat 2) (length selected)"
    by blast
  have e: "edition demo_started_game = ''demo''" by (simp add: demo_started_game_def)
  from sel have "selected = [monk, imp]"
    unfolding e demo_lobby_def [symmetric] demo_select2 by simp
  with len have l: "length (filter (\<lambda>p. character p \<noteq> None) (players demo_started_game)) = 2"
    by simp
  from concl have n: "length (non_storytellers demo_started_game) = 2" by simp
  from concl h4 h5 have "char_id imp \<noteq> char_id monk" by blast
  with h1 h2 h3 h4 h5 l n show ?thesis by blast
qed

lemma twin_distribution:
  "get_role_distribution twin_lobby ''twins'' 2 = Inr [(TOWNSFOLK, 1), (DEMON, 1)]"
  by (simp add: get_role_distribution_def twin_lobby_editions twin_catalog_def twin_edition_def)

lemma twin_select:
  "select_random_characters twin_lobby ''twins'' [(TOWNSFOLK, 1), (DEMON, 1)] [] =
     Inr ([twin_townsfolk, twin_demon], [])"
  by (simp add: select_random_characters_def twin_lobby_editions twin_catalog_def twin_edition_def
      random_sample_def mk_character_def Let_def twin_entry_def twin_townsfolk_def twin_demon_def)

lemma twin_shuffle: "shuffle [twin_townsfolk, twin_demon] [] = [twin_townsfolk, twin_demon]"
  by (simp add: shuffle_def Let_def)

lemma twin_start:
  "start_game twin_lobby ''g1'' 2 [] =
     (Inr twin_started_game, twin_lobby\<lparr>games := [''g1'' \<mapsto> twin_started_game]\<rparr>)"
  unfolding start_game_def twin_lobby_games
  by (simp add: non_storytellers_def twin_distribution twin_select twin_shuffle
      twin_lobby_game_def twin_started_game_def alice_def bob_def carol_def
      assign_characters_def non_storyteller_positions_def Let_def del: One_nat_def)

text \<open>
  Where the claim as first stated fails: over a catalog whose townsfolk bucket and demon
  bucket both hold the identifier \<open>same\<close>, the run creates a game, two players join, and
  \<open>start_game\<close> succeeds; Bob and Carol then hold characters with the same identifier.
\<close>

theorem assigned_characters_repeat:
  "start_game (run twin_catalog twin_calls) ''g1'' 2 [] =
     (Inr twin_started_game, run twin_catalog twin_calls\<lparr>games := [''g1'' \<mapsto> twin_started_game]\<rparr>) \<and>
   length (non_storytellers twin_started_game) = 2 \<and>
   character (players twin_started_game ! 1) = Some twin_townsfolk \<and>
   character (players twin_started_game ! 2) = Some twin_demon \<and>
   char_id twin_townsfolk = char_id twin_demon"
  unfolding twin_lobby_def [symmetric] twin_start
  by (simp add: non_storytellers_def twin_started_game_def twin_townsfolk_def twin_demon_def
      alice_def bob_def carol_def)

end
